theory Spec2Isabelle
  imports Main
begin

section \<open>Values, rows and the store\<close>

text \<open>
  The business logic of the task-management API
  (\<^verbatim>\<open>app/business_logic/todo_logic.py\<close>, \<^verbatim>\<open>app/business_logic/item_logic.py\<close>)
  works on two tables through an ORM session. The tables are lists of rows in storage
  order; the session's pending changes become the stored tables when the commit succeeds.

  Values that reach a row straight from a decoded JSON body (the fields of a Todo) are
  dynamically typed in the source; \<open>pyval\<close> keeps the scalar cases and their truth
  value (\<^verbatim>\<open>not status\<close>).
\<close>

datatype pyval = PNone | PBool bool | PInt int | PStr string

fun truthy :: "pyval \<Rightarrow> bool" where
  "truthy PNone = False"
| "truthy (PBool b) = b"
| "truthy (PInt n) = (n \<noteq> 0)"
| "truthy (PStr s) = (s \<noteq> [])"

type_synonym date = "int \<times> int \<times> int"

text \<open>\<^verbatim>\<open>class Todo(db.Model)\<close> in \<^verbatim>\<open>app/models/todo.py\<close>.\<close>

record todo =
  t_id :: int
  t_title :: pyval
  t_description :: pyval
  t_status :: pyval
  t_completed :: pyval
  t_user_id :: int

text \<open>\<^verbatim>\<open>class Item(db.Model)\<close> in \<^verbatim>\<open>app/models/item.py\<close>.\<close>

record item =
  i_id :: int
  i_content :: string
  i_status :: string
  i_due_date :: "date option"
  i_todo_id :: int

record db =
  todos_tbl :: "todo list"
  items_tbl :: "item list"

text \<open>
  A call either returns a value or lets an exception escape; the string is the
  exception's message (\<^verbatim>\<open>str(e)\<close>).
\<close>

datatype 'a outcome = Returned 'a | Raised string

text \<open>
  \<^verbatim>\<open>db.session.commit()\<close> followed by \<^verbatim>\<open>return r\<close>. The first argument is the
  exception the commit raises, if any: the persistence layer is outside the program, so
  its failure is an input. When the commit succeeds the pending tables are stored; when
  it raises, nothing is stored and the exception escapes.
\<close>

definition commit :: "string option \<Rightarrow> db \<Rightarrow> db \<Rightarrow> 'a \<Rightarrow> 'a outcome \<times> db" where
  "commit cf pending stored r =
     (case cf of None \<Rightarrow> (Returned r, pending) | Some e \<Rightarrow> (Raised e, stored))"

text \<open>The primary keys: no two rows of a table share an id.\<close>

definition wf_db :: "db \<Rightarrow> bool" where
  "wf_db d = (distinct (map t_id (todos_tbl d)) \<and> distinct (map i_id (items_tbl d)))"

text \<open>The id an autoincrement primary key gives the next row.\<close>

definition next_id :: "int list \<Rightarrow> int" where
  "next_id ids = fold max ids 0 + 1"

subsection \<open>Queries\<close>

text \<open>\<^verbatim>\<open>Todo.query.filter_by(id=todo_id, user_id=user_id).first()\<close>\<close>

definition todo_first :: "db \<Rightarrow> int \<Rightarrow> int \<Rightarrow> todo option" where
  "todo_first d todo_id user_id =
     find (\<lambda>t. t_id t = todo_id \<and> t_user_id t = user_id) (todos_tbl d)"

text \<open>\<^verbatim>\<open>Item.query.join(Item.todo)\<close>: each item with the todo its \<^verbatim>\<open>todo_id\<close> names.\<close>

definition item_join_todo :: "db \<Rightarrow> (item \<times> todo) list" where
  "item_join_todo d =
     concat (map (\<lambda>i. map (\<lambda>t. (i, t)) (filter (\<lambda>t. t_id t = i_todo_id i) (todos_tbl d)))
       (items_tbl d))"

text \<open>\<^verbatim>\<open>Item.query.join(Item.todo).filter(Item.id == item_id, Todo.user_id == user_id).first()\<close>\<close>

definition item_first :: "db \<Rightarrow> int \<Rightarrow> int \<Rightarrow> item option" where
  "item_first d item_id user_id =
     map_option fst
       (find (\<lambda>(i, t). i_id i = item_id \<and> t_user_id t = user_id) (item_join_todo d))"

text \<open>
  \<^verbatim>\<open>Item.query.join(Item.todo).filter(Item.id.in_(item_ids), Todo.user_id == user_id).all()\<close>
\<close>

definition items_in :: "db \<Rightarrow> int list \<Rightarrow> int \<Rightarrow> item list" where
  "items_in d item_ids user_id =
     map fst
       (filter (\<lambda>(i, t). i_id i \<in> set item_ids \<and> t_user_id t = user_id) (item_join_todo d))"

text \<open>\<^verbatim>\<open>Todo.query.filter(Todo.id.in_(todo_ids), Todo.user_id == user_id).all()\<close>\<close>

definition todos_in :: "db \<Rightarrow> int list \<Rightarrow> int \<Rightarrow> todo list" where
  "todos_in d todo_ids user_id =
     filter (\<lambda>t. t_id t \<in> set todo_ids \<and> t_user_id t = user_id) (todos_tbl d)"

subsection \<open>Session changes\<close>

text \<open>\<^verbatim>\<open>db.session.add(item)\<close>\<close>

definition session_add_item :: "item \<Rightarrow> db \<Rightarrow> db" where
  "session_add_item i d = d\<lparr>items_tbl := items_tbl d @ [i]\<rparr>"

text \<open>\<^verbatim>\<open>db.session.delete(item)\<close>: the row with the item's primary key goes.\<close>

definition session_delete_item :: "item \<Rightarrow> db \<Rightarrow> db" where
  "session_delete_item i d = d\<lparr>items_tbl := filter (\<lambda>j. i_id j \<noteq> i_id i) (items_tbl d)\<rparr>"

text \<open>
  \<^verbatim>\<open>db.session.delete(todo)\<close>: the row with the todo's primary key goes, and with it the
  rows of \<^verbatim>\<open>todo.items\<close>, by the relationship's \<^verbatim>\<open>cascade="all, delete-orphan"\<close>
  (\<^verbatim>\<open>app/models/todo.py\<close>).
\<close>

definition session_delete_todo :: "todo \<Rightarrow> db \<Rightarrow> db" where
  "session_delete_todo t d =
     d\<lparr>todos_tbl := filter (\<lambda>u. t_id u \<noteq> t_id t) (todos_tbl d),
       items_tbl := filter (\<lambda>j. i_todo_id j \<noteq> t_id t) (items_tbl d)\<rparr>"

text \<open>
  Assignments to the attributes of a loaded row: the change \<open>f\<close> is written to the row
  with that primary key.
\<close>

definition item_update :: "(item \<Rightarrow> item) \<Rightarrow> item \<Rightarrow> db \<Rightarrow> db" where
  "item_update f i d =
     d\<lparr>items_tbl := map (\<lambda>j. if i_id j = i_id i then f j else j) (items_tbl d)\<rparr>"

definition todo_update :: "(todo \<Rightarrow> todo) \<Rightarrow> todo \<Rightarrow> db \<Rightarrow> db" where
  "todo_update f t d =
     d\<lparr>todos_tbl := map (\<lambda>u. if t_id u = t_id t then f u else u) (todos_tbl d)\<rparr>"

subsection \<open>Messages\<close>

text \<open>
  \<^verbatim>\<open>VALID_STATUSES\<close> of \<^verbatim>\<open>item_logic.py\<close>, and how an f-string prints a list of
  strings.
\<close>

definition VALID_STATUSES :: "string list" where
  "VALID_STATUSES = [''Pending'', ''Partially Completed'', ''Completed'']"

definition py_repr_str :: "string \<Rightarrow> string" where
  "py_repr_str s = [CHR 0x27] @ s @ [CHR 0x27]"

fun py_join :: "string \<Rightarrow> string list \<Rightarrow> string" where
  "py_join sep [] = []"
| "py_join sep [x] = x"
| "py_join sep (x # y # ys) = x @ sep @ py_join sep (y # ys)"

definition py_repr_list :: "string list \<Rightarrow> string" where
  "py_repr_list xs = ''['' @ py_join '', '' (map py_repr_str xs) @ '']''"

definition item_not_found :: string where
  "item_not_found = ''Item not found or you don't have permission''"

definition todo_no_permission :: string where
  "todo_no_permission = ''Todo not found or you don't have permission''"

definition invalid_status :: string where
  "invalid_status = ''Invalid status. Must be one of '' @ py_repr_list VALID_STATUSES"

definition invalid_action :: string where
  "invalid_action =
     ''Invalid action. Must be one of '' @ py_repr_list VALID_STATUSES @ '' or 'delete'' @ [CHR 0x27]"

section \<open>Item logic\<close>

text \<open>
  Every function takes the commit's failure (see \<open>commit\<close>) and the stored tables, and
  returns what the Python function returns together with the tables stored afterwards.
  A default argument of the source is passed by the caller. The user id is an integer:
  \<^verbatim>\<open>int(user_id)\<close> leaves it as it is.
\<close>

definition add_item_to_todo ::
  "string option \<Rightarrow> db \<Rightarrow> int \<Rightarrow> int \<Rightarrow> string \<Rightarrow> date option \<Rightarrow> string
     \<Rightarrow> (item option \<times> string option) outcome \<times> db" where
  "add_item_to_todo cf d todo_id user_id content due_date status =
     (case todo_first d todo_id user_id of
        None \<Rightarrow> (Returned (None, Some todo_no_permission), d)
      | Some todo \<Rightarrow>
          (let item = \<lparr>i_id = next_id (map i_id (items_tbl d)), i_content = content,
                        i_status = status, i_due_date = due_date, i_todo_id = t_id todo\<rparr>
           in commit cf (session_add_item item d) d (Some item, None)))"

definition update_item_status ::
  "string option \<Rightarrow> db \<Rightarrow> int \<Rightarrow> int \<Rightarrow> string
     \<Rightarrow> (item option \<times> string option) outcome \<times> db" where
  "update_item_status cf d item_id user_id new_status =
     (case item_first d item_id user_id of
        None \<Rightarrow> (Returned (None, Some item_not_found), d)
      | Some item \<Rightarrow>
          if new_status \<notin> set VALID_STATUSES
          then (Returned (None, Some invalid_status), d)
          else commit cf (item_update (\<lambda>j. j\<lparr>i_status := new_status\<rparr>) item d) d
                 (Some (item\<lparr>i_status := new_status\<rparr>), None))"

definition delete_item ::
  "string option \<Rightarrow> db \<Rightarrow> int \<Rightarrow> int \<Rightarrow> (bool \<times> string option) outcome \<times> db" where
  "delete_item cf d item_id user_id =
     (case item_first d item_id user_id of
        None \<Rightarrow> (Returned (False, Some item_not_found), d)
      | Some item \<Rightarrow> commit cf (session_delete_item item d) d (True, None))"

text \<open>
  Modelled from the spec: \<^verbatim>\<open>Query.paginate\<close> belongs to the ORM extension, not to this
  repository. The page window over the rows, with the total row count, the current page,
  the number of pages (the ceiling of total / per_page) and the effective per_page.
  The spec is silent on a page or a per_page below 1, and the facts proved about listings
  ask for both to be at least 1.
\<close>

record 'a pagination =
  pg_items :: "'a list"
  pg_total :: int
  pg_page :: int
  pg_pages :: int
  pg_per_page :: int

definition paginate :: "'a list \<Rightarrow> int \<Rightarrow> int \<Rightarrow> 'a pagination" where
  "paginate rows page per_page =
     \<lparr>pg_items = take (nat per_page) (drop (nat ((page - 1) * per_page)) rows),
      pg_total = int (length rows),
      pg_page = page,
      pg_pages = (if per_page = 0 then 0 else - ((- int (length rows)) div per_page)),
      pg_per_page = per_page\<rparr>"

text \<open>The dictionary \<^verbatim>\<open>get_items_for_todo\<close> returns.\<close>

record listing =
  l_items :: "item list"
  l_total :: int
  l_page :: int
  l_pages :: int
  l_per_page :: int

definition get_items_for_todo ::
  "db \<Rightarrow> int \<Rightarrow> int \<Rightarrow> int \<Rightarrow> int \<Rightarrow> listing option \<times> string option" where
  "get_items_for_todo d todo_id user_id page per_page =
     (case todo_first d todo_id user_id of
        None \<Rightarrow> (None, Some todo_no_permission)
      | Some todo \<Rightarrow>
          (let query = filter (\<lambda>i. i_todo_id i = todo_id) (items_tbl d);
               pagination = paginate query page (min per_page 100)
           in (Some \<lparr>l_items = pg_items pagination, l_total = pg_total pagination,
                     l_page = pg_page pagination, l_pages = pg_pages pagination,
                     l_per_page = pg_per_page pagination\<rparr>, None)))"

definition get_item_by_id :: "db \<Rightarrow> int \<Rightarrow> int \<Rightarrow> item option" where
  "get_item_by_id d item_id user_id = item_first d item_id user_id"

definition bulk_update_items ::
  "string option \<Rightarrow> db \<Rightarrow> int \<Rightarrow> int list \<Rightarrow> string
     \<Rightarrow> (bool \<times> string option) outcome \<times> db" where
  "bulk_update_items cf d user_id item_ids action =
     (let items = items_in d item_ids user_id in
      if items = [] then (Returned (False, Some item_not_found), d)
      else if action = ''delete''
        then commit cf (fold session_delete_item items d) d (True, None)
      else if action \<in> set VALID_STATUSES
        then commit cf (fold (item_update (\<lambda>j. j\<lparr>i_status := action\<rparr>)) items d) d (True, None)
      else (Returned (False, Some invalid_action), d))"

section \<open>Todo logic\<close>

definition create_todo ::
  "string option \<Rightarrow> db \<Rightarrow> pyval \<Rightarrow> int \<Rightarrow> pyval \<Rightarrow> pyval \<Rightarrow> todo outcome \<times> db" where
  "create_todo cf d title user_id description status =
     (let todo = \<lparr>t_id = next_id (map t_id (todos_tbl d)), t_title = title,
                   t_description = description, t_status = status,
                   t_completed = PBool False, t_user_id = user_id\<rparr>
      in commit cf (d\<lparr>todos_tbl := todos_tbl d @ [todo]\<rparr>) d todo)"

definition get_todos :: "db \<Rightarrow> int \<Rightarrow> int \<Rightarrow> int \<Rightarrow> todo list" where
  "get_todos d user_id page per_page =
     pg_items (paginate (filter (\<lambda>t. t_user_id t = user_id) (todos_tbl d)) page per_page)"

definition get_todo_by_id :: "db \<Rightarrow> int \<Rightarrow> int \<Rightarrow> todo option" where
  "get_todo_by_id d todo_id user_id = todo_first d todo_id user_id"

text \<open>
  The four guarded assignments of \<^verbatim>\<open>update_todo\<close>: a key of \<^verbatim>\<open>data\<close> that is
  present overwrites the attribute.
\<close>

definition merge_payload :: "(string \<rightharpoonup> pyval) \<Rightarrow> todo \<Rightarrow> todo" where
  "merge_payload data t0 =
     (let t1 = (case data ''title'' of None \<Rightarrow> t0 | Some v \<Rightarrow> t0\<lparr>t_title := v\<rparr>);
          t2 = (case data ''description'' of None \<Rightarrow> t1 | Some v \<Rightarrow> t1\<lparr>t_description := v\<rparr>);
          t3 = (case data ''status'' of None \<Rightarrow> t2 | Some v \<Rightarrow> t2\<lparr>t_status := v\<rparr>);
          t4 = (case data ''completed'' of None \<Rightarrow> t3 | Some v \<Rightarrow> t3\<lparr>t_completed := v\<rparr>)
      in t4)"

definition update_todo ::
  "string option \<Rightarrow> db \<Rightarrow> int \<Rightarrow> int \<Rightarrow> (string \<rightharpoonup> pyval)
     \<Rightarrow> (todo option \<times> string option) outcome \<times> db" where
  "update_todo cf d todo_id user_id data =
     (case todo_first d todo_id user_id of
        None \<Rightarrow> (Returned (None, Some ''Todo not found''), d)
      | Some todo \<Rightarrow>
          commit cf (todo_update (merge_payload data) todo d) d
            (Some (merge_payload data todo), None))"

definition delete_todo ::
  "string option \<Rightarrow> db \<Rightarrow> int \<Rightarrow> int \<Rightarrow> (bool \<times> string option) outcome \<times> db" where
  "delete_todo cf d todo_id user_id =
     (case todo_first d todo_id user_id of
        None \<Rightarrow> (Returned (False, Some ''Todo not found''), d)
      | Some todo \<Rightarrow> commit cf (session_delete_todo todo d) d (True, None))"

text \<open>
  The handler of \<^verbatim>\<open>bulk_update_todos\<close>:
  \<^verbatim>\<open>except Exception as e: db.session.rollback(); return False, str(e)\<close>.
\<close>

definition except_rollback ::
  "db \<Rightarrow> (bool \<times> string option) outcome \<times> db \<Rightarrow> (bool \<times> string option) \<times> db" where
  "except_rollback stored run =
     (case run of
        (Returned r, d') \<Rightarrow> (r, d')
      | (Raised e, d') \<Rightarrow> ((False, Some e), stored))"

definition bulk_update_todos ::
  "string option \<Rightarrow> db \<Rightarrow> int \<Rightarrow> int list \<Rightarrow> string \<Rightarrow> pyval
     \<Rightarrow> (bool \<times> string option) \<times> db" where
  "bulk_update_todos cf d user_id todo_ids action status =
     except_rollback d
       (let todos = todos_in d todo_ids user_id in
        if todos = [] then (Returned (False, Some ''No matching todos found''), d)
        else if action = ''delete''
          then commit cf (fold session_delete_todo todos d) d (True, None)
        else if action = ''update_status''
          then (if \<not> truthy status
                then (Returned (False, Some ''Missing status for bulk update''), d)
                else commit cf (fold (todo_update (\<lambda>u. u\<lparr>t_status := status\<rparr>)) todos d) d
                       (True, None))
        else (Returned (False, Some ''Invalid action''), d))"

section \<open>Ownership\<close>

text \<open>The ownership chain of an item: the user of the todo its \<^verbatim>\<open>todo_id\<close> names.\<close>

definition item_owner :: "db \<Rightarrow> item \<Rightarrow> int option" where
  "item_owner d i = map_option t_user_id (find (\<lambda>t. t_id t = i_todo_id i) (todos_tbl d))"

section \<open>A small store\<close>

text \<open>
  User 1 owns todo 1 (items 1 and 2) and todo 2 (no item); user 2 owns todo 3 (item 3).
\<close>

definition todo1 :: todo where
  "todo1 = \<lparr>t_id = 1, t_title = PStr ''Write report'', t_description = PNone,
            t_status = PStr ''In Progress'', t_completed = PBool False, t_user_id = 1\<rparr>"

definition todo2 :: todo where
  "todo2 = \<lparr>t_id = 2, t_title = PStr ''Plan trip'', t_description = PStr ''summer'',
            t_status = PStr ''In Progress'', t_completed = PBool False, t_user_id = 1\<rparr>"

definition todo3 :: todo where
  "todo3 = \<lparr>t_id = 3, t_title = PStr ''Taxes'', t_description = PNone,
            t_status = PStr ''In Progress'', t_completed = PBool False, t_user_id = 2\<rparr>"

definition item1 :: item where
  "item1 = \<lparr>i_id = 1, i_content = ''outline'', i_status = ''Pending'',
            i_due_date = None, i_todo_id = 1\<rparr>"

definition item2 :: item where
  "item2 = \<lparr>i_id = 2, i_content = ''draft'', i_status = ''Partially Completed'',
            i_due_date = Some (2025, 10, 5), i_todo_id = 1\<rparr>"

definition item3 :: item where
  "item3 = \<lparr>i_id = 3, i_content = ''receipts'', i_status = ''Pending'',
            i_due_date = None, i_todo_id = 3\<rparr>"

definition db0 :: db where
  "db0 = \<lparr>todos_tbl = [todo1, todo2, todo3], items_tbl = [item1, item2, item3]\<rparr>"

text \<open>A larger store: user 1 owns 150 todos, and todo 1 has 150 items.\<close>

definition db_many :: db where
  "db_many =
     \<lparr>todos_tbl = map (\<lambda>n. \<lparr>t_id = int n, t_title = PStr ''chore'', t_description = PNone,
                              t_status = PStr ''In Progress'', t_completed = PBool False,
                              t_user_id = 1\<rparr>) [1..<151],
      items_tbl = map (\<lambda>n. \<lparr>i_id = int n, i_content = ''step'', i_status = ''Pending'',
                              i_due_date = None, i_todo_id = 1\<rparr>) [1..<151]\<rparr>"

section \<open>The status invariant\<close>

text \<open>Every stored item has one of the statuses of \<^verbatim>\<open>VALID_STATUSES\<close>.\<close>

definition statuses_valid :: "db \<Rightarrow> bool" where
  "statuses_valid d = list_all (\<lambda>i. i_status i \<in> set VALID_STATUSES) (items_tbl d)"

section \<open>Facts about the queries and the session\<close>

lemma filter_key_distinct:
  "distinct (map f xs) \<Longrightarrow>
   filter (\<lambda>x. f x = k) xs = (case find (\<lambda>x. f x = k) xs of None \<Rightarrow> [] | Some x \<Rightarrow> [x])"
proof (induction xs)
  case Nil
  then show ?case by simp
next
  case (Cons a xs)
  show ?case
  proof (cases "f a = k")
    case True
    with Cons.prems have "\<forall>x \<in> set xs. f x \<noteq> k" by (auto simp: image_iff)
    then have "filter (\<lambda>x. f x = k) xs = []" by (simp add: filter_empty_conv)
    with True show ?thesis by simp
  next
    case False
    with Cons show ?thesis by simp
  qed
qed

lemma concat_if_filter: "concat (map (\<lambda>i. if Q i then [i] else []) xs) = filter Q xs"
  by (induction xs) auto

lemma join_select:
  assumes "distinct (map t_id (todos_tbl d))"
  shows "map fst (filter (\<lambda>(i, t). P i \<and> t_user_id t = uid) (item_join_todo d))
         = filter (\<lambda>i. P i \<and> item_owner d i = Some uid) (items_tbl d)"
proof -
  have row: "map fst (filter (\<lambda>(i, t). P i \<and> t_user_id t = uid)
                 (map (\<lambda>t. (i, t)) (filter (\<lambda>t. t_id t = i_todo_id i) (todos_tbl d))))
             = (if P i \<and> item_owner d i = Some uid then [i] else [])" for i
    using filter_key_distinct [OF assms, of "i_todo_id i"]
    by (auto simp: item_owner_def split: option.splits)
  have "map fst (filter (\<lambda>(i, t). P i \<and> t_user_id t = uid) (item_join_todo d))
        = concat (map (\<lambda>i. if P i \<and> item_owner d i = Some uid then [i] else []) (items_tbl d))"
    by (simp add: item_join_todo_def filter_concat map_concat comp_def row)
  also have "\<dots> = filter (\<lambda>i. P i \<and> item_owner d i = Some uid) (items_tbl d)"
    by (rule concat_if_filter)
  finally show ?thesis .
qed

lemma find_as_filter: "find P xs = (case filter P xs of [] \<Rightarrow> None | x # _ \<Rightarrow> Some x)"
  by (induction xs) auto

lemma items_in_owned:
  "distinct (map t_id (todos_tbl d)) \<Longrightarrow>
   items_in d ids uid = filter (\<lambda>i. i_id i \<in> set ids \<and> item_owner d i = Some uid) (items_tbl d)"
  unfolding items_in_def by (rule join_select)

lemma item_first_owned:
  assumes "distinct (map t_id (todos_tbl d))"
  shows "item_first d iid uid = find (\<lambda>i. i_id i = iid \<and> item_owner d i = Some uid) (items_tbl d)"
proof -
  let ?J = "filter (\<lambda>(i, t). i_id i = iid \<and> t_user_id t = uid) (item_join_todo d)"
  have "item_first d iid uid = (case map fst ?J of [] \<Rightarrow> None | x # _ \<Rightarrow> Some x)"
    by (simp add: item_first_def find_as_filter split: list.splits)
  also have "map fst ?J = filter (\<lambda>i. i_id i = iid \<and> item_owner d i = Some uid) (items_tbl d)"
    by (rule join_select [OF assms])
  finally show ?thesis by (simp add: find_as_filter)
qed


lemma find_key_Some_iff:
  "distinct (map f xs) \<Longrightarrow>
   (find (\<lambda>x. f x = k \<and> Q x) xs = Some y) = (y \<in> set xs \<and> f y = k \<and> Q y)"
proof (induction xs)
  case Nil
  then show ?case by simp
next
  case (Cons a xs)
  then show ?case by (auto simp: image_iff)
qed

lemma todo_first_Some_iff:
  "wf_db d \<Longrightarrow>
   (todo_first d tid uid = Some t) = (t \<in> set (todos_tbl d) \<and> t_id t = tid \<and> t_user_id t = uid)"
  by (simp add: wf_db_def todo_first_def find_key_Some_iff)

lemma item_first_Some_iff:
  "wf_db d \<Longrightarrow>
   (item_first d iid uid = Some i)
     = (i \<in> set (items_tbl d) \<and> i_id i = iid \<and> item_owner d i = Some uid)"
  by (simp add: wf_db_def item_first_owned find_key_Some_iff)

lemma todo_first_None_iff:
  "(todo_first d tid uid = None)
     = (filter (\<lambda>t. t_id t = tid \<and> t_user_id t = uid) (todos_tbl d) = [])"
  by (auto simp: todo_first_def find_None_iff filter_empty_conv)

lemma item_first_None_iff:
  "wf_db d \<Longrightarrow>
   (item_first d iid uid = None)
     = (filter (\<lambda>i. i_id i = iid \<and> item_owner d i = Some uid) (items_tbl d) = [])"
  by (auto simp: wf_db_def item_first_owned find_None_iff filter_empty_conv)

lemma invalid_status_text:
  "invalid_status = ''Invalid status. Must be one of ['Pending', 'Partially Completed', 'Completed']''"
  by (simp add: invalid_status_def py_repr_list_def py_repr_str_def VALID_STATUSES_def)

lemma invalid_action_text:
  "invalid_action = ''Invalid action. Must be one of ['Pending', 'Partially Completed', 'Completed'] or 'delete'' @ [CHR 0x27]"
  by (simp add: invalid_action_def py_repr_list_def py_repr_str_def VALID_STATUSES_def)

lemma wf_db0: "wf_db db0"
  by (simp add: wf_db_def db0_def todo1_def todo2_def todo3_def item1_def item2_def item3_def)

lemma fold_delete_items:
  "fold session_delete_item xs d
     = d\<lparr>items_tbl := filter (\<lambda>j. i_id j \<notin> i_id ` set xs) (items_tbl d)\<rparr>"
proof (induction xs arbitrary: d)
  case Nil
  then show ?case by simp
next
  case (Cons x xs)
  have "filter (\<lambda>j. i_id j \<notin> i_id ` set xs) (filter (\<lambda>j. i_id j \<noteq> i_id x) (items_tbl d))
        = filter (\<lambda>j. i_id j \<notin> i_id ` set (x # xs)) (items_tbl d)"
    by (auto intro: filter_cong)
  with Cons show ?case by (simp add: session_delete_item_def)
qed

lemma fold_delete_todos:
  "fold session_delete_todo ts d
     = d\<lparr>todos_tbl := filter (\<lambda>u. t_id u \<notin> t_id ` set ts) (todos_tbl d),
         items_tbl := filter (\<lambda>j. i_todo_id j \<notin> t_id ` set ts) (items_tbl d)\<rparr>"
proof (induction ts arbitrary: d)
  case Nil
  then show ?case by simp
next
  case (Cons x xs)
  have a: "filter (\<lambda>u. t_id u \<notin> t_id ` set xs) (filter (\<lambda>u. t_id u \<noteq> t_id x) (todos_tbl d))
        = filter (\<lambda>u. t_id u \<notin> t_id ` set (x # xs)) (todos_tbl d)"
    by (auto intro: filter_cong)
  have b: "filter (\<lambda>j. i_todo_id j \<notin> t_id ` set xs) (filter (\<lambda>j. i_todo_id j \<noteq> t_id x) (items_tbl d))
        = filter (\<lambda>j. i_todo_id j \<notin> t_id ` set (x # xs)) (items_tbl d)"
    by (auto intro: filter_cong)
  from Cons a b show ?case by (simp add: session_delete_todo_def)
qed

lemma fold_item_update:
  assumes "\<And>j. i_id (f j) = i_id j" and "\<And>j. f (f j) = f j"
  shows "fold (item_update f) xs d
     = d\<lparr>items_tbl := map (\<lambda>j. if i_id j \<in> i_id ` set xs then f j else j) (items_tbl d)\<rparr>"
proof (induction xs arbitrary: d)
  case Nil
  then show ?case by simp
next
  case (Cons x xs)
  have "map ((\<lambda>j. if i_id j \<in> i_id ` set xs then f j else j) \<circ> (\<lambda>j. if i_id j = i_id x then f j else j))
          (items_tbl d)
        = map (\<lambda>j. if i_id j \<in> i_id ` set (x # xs) then f j else j) (items_tbl d)"
    by (rule map_cong) (auto simp: assms)
  with Cons show ?case by (simp add: item_update_def)
qed

lemma fold_todo_update:
  assumes "\<And>u. t_id (f u) = t_id u" and "\<And>u. f (f u) = f u"
  shows "fold (todo_update f) ts d
     = d\<lparr>todos_tbl := map (\<lambda>u. if t_id u \<in> t_id ` set ts then f u else u) (todos_tbl d)\<rparr>"
proof (induction ts arbitrary: d)
  case Nil
  then show ?case by simp
next
  case (Cons x xs)
  have "map ((\<lambda>u. if t_id u \<in> t_id ` set xs then f u else u) \<circ> (\<lambda>u. if t_id u = t_id x then f u else u))
          (todos_tbl d)
        = map (\<lambda>u. if t_id u \<in> t_id ` set (x # xs) then f u else u) (todos_tbl d)"
    by (rule map_cong) (auto simp: assms)
  with Cons show ?case by (simp add: todo_update_def)
qed

text \<open>Under unique keys, a row's key is among the selected rows' keys iff the row is selected.\<close>

lemma key_in_selected:
  assumes "distinct (map f xs)" and "x \<in> set xs"
  shows "(f x \<in> f ` set (filter P xs)) = P x"
proof
  assume "f x \<in> f ` set (filter P xs)"
  then obtain y where y: "y \<in> set xs" "P y" "f y = f x" by auto
  from assms y have "y = x" by (meson distinct_map inj_onD)
  with y show "P x" by simp
next
  assume "P x"
  with assms show "f x \<in> f ` set (filter P xs)" by auto
qed

lemma find_key_owner:
  assumes "distinct (map t_id ts)"
  shows "(k \<in> t_id ` set (filter (\<lambda>t. t_id t \<in> S \<and> t_user_id t = uid) ts))
         = (k \<in> S \<and> map_option t_user_id (find (\<lambda>t. t_id t = k) ts) = Some uid)"
proof -
  have "map_option t_user_id (find (\<lambda>t. t_id t = k) ts) = Some uid
        \<longleftrightarrow> (\<exists>t. find (\<lambda>t. t_id t = k \<and> True) ts = Some t \<and> t_user_id t = uid)"
    by auto
  also have "\<dots> \<longleftrightarrow> (\<exists>t. t \<in> set ts \<and> t_id t = k \<and> t_user_id t = uid)"
    using find_key_Some_iff [OF assms, of k "\<lambda>_. True"] by auto
  finally show ?thesis by auto
qed

lemma bulk_items_none:
  assumes "wf_db d"
    and "filter (\<lambda>i. i_id i \<in> set ids \<and> item_owner d i = Some uid) (items_tbl d) = []"
  shows "bulk_update_items cf d uid ids action = (Returned (False, Some item_not_found), d)"
  using assms by (simp add: bulk_update_items_def wf_db_def items_in_owned)

lemma bulk_items_delete:
  assumes "wf_db d"
    and "filter (\<lambda>i. i_id i \<in> set ids \<and> item_owner d i = Some uid) (items_tbl d) \<noteq> []"
  shows "bulk_update_items None d uid ids ''delete''
         = (Returned (True, None),
            d\<lparr>items_tbl := filter (\<lambda>i. \<not> (i_id i \<in> set ids \<and> item_owner d i = Some uid))
                             (items_tbl d)\<rparr>)"
proof -
  let ?P = "\<lambda>i. i_id i \<in> set ids \<and> item_owner d i = Some uid"
  from assms(1) have dt: "distinct (map t_id (todos_tbl d))" and di: "distinct (map i_id (items_tbl d))"
    by (simp_all add: wf_db_def)
  have "filter (\<lambda>j. i_id j \<notin> i_id ` set (filter ?P (items_tbl d))) (items_tbl d)
        = filter (\<lambda>i. \<not> ?P i) (items_tbl d)"
    by (rule filter_cong [OF refl]) (simp only: key_in_selected [OF di])
  with assms(2) show ?thesis
    by (simp add: bulk_update_items_def items_in_owned [OF dt] commit_def fold_delete_items)
qed

lemma delete_not_status: "''delete'' \<notin> set VALID_STATUSES"
  by (simp add: VALID_STATUSES_def)

lemma bulk_items_status:
  assumes "wf_db d"
    and "filter (\<lambda>i. i_id i \<in> set ids \<and> item_owner d i = Some uid) (items_tbl d) \<noteq> []"
    and "action \<in> set VALID_STATUSES"
  shows "bulk_update_items None d uid ids action
         = (Returned (True, None),
            d\<lparr>items_tbl := map (\<lambda>i. if i_id i \<in> set ids \<and> item_owner d i = Some uid
                                      then i\<lparr>i_status := action\<rparr> else i) (items_tbl d)\<rparr>)"
proof -
  let ?P = "\<lambda>i. i_id i \<in> set ids \<and> item_owner d i = Some uid"
  let ?f = "\<lambda>j. j\<lparr>i_status := action\<rparr>"
  from assms(1) have dt: "distinct (map t_id (todos_tbl d))" and di: "distinct (map i_id (items_tbl d))"
    by (simp_all add: wf_db_def)
  from assms(3) delete_not_status have nd: "action \<noteq> ''delete''" by blast
  have "map (\<lambda>j. if i_id j \<in> i_id ` set (filter ?P (items_tbl d)) then ?f j else j) (items_tbl d)
        = map (\<lambda>i. if ?P i then ?f i else i) (items_tbl d)"
    by (rule map_cong [OF refl]) (simp only: key_in_selected [OF di])
  moreover have "fold (item_update ?f) xs d
        = d\<lparr>items_tbl := map (\<lambda>j. if i_id j \<in> i_id ` set xs then ?f j else j) (items_tbl d)\<rparr>" for xs
    by (rule fold_item_update) simp_all
  ultimately show ?thesis
    using assms(2,3) nd
    by (simp add: bulk_update_items_def items_in_owned [OF dt] commit_def)
qed

lemma bulk_todos_none:
  assumes "filter (\<lambda>t. t_id t \<in> set ids \<and> t_user_id t = uid) (todos_tbl d) = []"
  shows "bulk_update_todos cf d uid ids action status
         = ((False, Some ''No matching todos found''), d)"
  using assms by (simp add: bulk_update_todos_def todos_in_def except_rollback_def)

lemma bulk_todos_delete:
  assumes "wf_db d"
    and "filter (\<lambda>t. t_id t \<in> set ids \<and> t_user_id t = uid) (todos_tbl d) \<noteq> []"
  shows "bulk_update_todos None d uid ids ''delete'' status
         = ((True, None),
            d\<lparr>todos_tbl := filter (\<lambda>t. \<not> (t_id t \<in> set ids \<and> t_user_id t = uid)) (todos_tbl d),
              items_tbl := filter (\<lambda>i. \<not> (i_todo_id i \<in> set ids \<and> item_owner d i = Some uid))
                             (items_tbl d)\<rparr>)"
proof -
  let ?P = "\<lambda>t. t_id t \<in> set ids \<and> t_user_id t = uid"
  from assms(1) have dt: "distinct (map t_id (todos_tbl d))"
    by (simp add: wf_db_def)
  have a: "filter (\<lambda>u. t_id u \<notin> t_id ` set (filter ?P (todos_tbl d))) (todos_tbl d)
        = filter (\<lambda>t. \<not> ?P t) (todos_tbl d)"
    by (rule filter_cong [OF refl]) (simp only: key_in_selected [OF dt])
  have b: "filter (\<lambda>j. i_todo_id j \<notin> t_id ` set (filter ?P (todos_tbl d))) (items_tbl d)
        = filter (\<lambda>i. \<not> (i_todo_id i \<in> set ids \<and> item_owner d i = Some uid)) (items_tbl d)"
    by (rule filter_cong [OF refl]) (simp only: find_key_owner [OF dt] item_owner_def)
  from assms(2) a b show ?thesis
    by (simp add: bulk_update_todos_def todos_in_def except_rollback_def commit_def
        fold_delete_todos)
qed

lemma bulk_todos_status:
  assumes "wf_db d"
    and "filter (\<lambda>t. t_id t \<in> set ids \<and> t_user_id t = uid) (todos_tbl d) \<noteq> []"
    and "truthy status"
  shows "bulk_update_todos None d uid ids ''update_status'' status
         = ((True, None),
            d\<lparr>todos_tbl := map (\<lambda>t. if t_id t \<in> set ids \<and> t_user_id t = uid
                                      then t\<lparr>t_status := status\<rparr> else t) (todos_tbl d)\<rparr>)"
proof -
  let ?P = "\<lambda>t. t_id t \<in> set ids \<and> t_user_id t = uid"
  let ?f = "\<lambda>u. u\<lparr>t_status := status\<rparr>"
  from assms(1) have dt: "distinct (map t_id (todos_tbl d))"
    by (simp add: wf_db_def)
  have "map (\<lambda>u. if t_id u \<in> t_id ` set (filter ?P (todos_tbl d)) then ?f u else u) (todos_tbl d)
        = map (\<lambda>t. if ?P t then ?f t else t) (todos_tbl d)"
    by (rule map_cong [OF refl]) (simp only: key_in_selected [OF dt])
  moreover have "fold (todo_update ?f) xs d
        = d\<lparr>todos_tbl := map (\<lambda>u. if t_id u \<in> t_id ` set xs then ?f u else u) (todos_tbl d)\<rparr>" for xs
    by (rule fold_todo_update) simp_all
  ultimately show ?thesis
    using assms(2,3)
    by (simp add: bulk_update_todos_def todos_in_def except_rollback_def commit_def)
qed

lemmas db0_rows = db0_def todo1_def todo2_def todo3_def item1_def item2_def item3_def

lemmas lookups = get_item_by_id_def get_todo_by_id_def item_first_def todo_first_def
  item_join_todo_def item_owner_def

lemma merge_payload_fields:
  "t_title (merge_payload data t) = (case data ''title'' of None \<Rightarrow> t_title t | Some v \<Rightarrow> v)"
  "t_description (merge_payload data t)
     = (case data ''description'' of None \<Rightarrow> t_description t | Some v \<Rightarrow> v)"
  "t_status (merge_payload data t) = (case data ''status'' of None \<Rightarrow> t_status t | Some v \<Rightarrow> v)"
  "t_completed (merge_payload data t)
     = (case data ''completed'' of None \<Rightarrow> t_completed t | Some v \<Rightarrow> v)"
  "t_id (merge_payload data t) = t_id t"
  "t_user_id (merge_payload data t) = t_user_id t"
  by (simp_all add: merge_payload_def Let_def split: option.splits)

lemma commit_stores: "snd (commit cf pending d r) = (case cf of None \<Rightarrow> pending | Some e \<Rightarrow> d)"
  by (simp add: commit_def split: option.splits)

lemma item_update_keeps_valid:
  assumes "statuses_valid d" and "s \<in> set VALID_STATUSES"
  shows "statuses_valid (item_update (\<lambda>j. j\<lparr>i_status := s\<rparr>) i d)"
  using assms by (auto simp: statuses_valid_def item_update_def list_all_iff)

lemma session_delete_item_keeps_valid:
  "statuses_valid d \<Longrightarrow> statuses_valid (session_delete_item i d)"
  by (simp add: statuses_valid_def session_delete_item_def list_all_iff)

lemma update_item_status_keeps_valid:
  assumes "statuses_valid d"
  shows "statuses_valid (snd (update_item_status cf d iid uid s))"
  using assms
  by (simp add: update_item_status_def commit_stores item_update_keeps_valid
      split: option.splits)

lemma bulk_update_items_keeps_valid:
  assumes "statuses_valid d"
  shows "statuses_valid (snd (bulk_update_items cf d uid ids a))"
proof -
  have del: "statuses_valid (fold session_delete_item xs d)" for xs
    using assms by (simp add: fold_delete_items statuses_valid_def list_all_iff)
  have upd: "a \<in> set VALID_STATUSES \<Longrightarrow>
      statuses_valid (fold (item_update (\<lambda>j. j\<lparr>i_status := a\<rparr>)) xs d)" for xs
    using assms by (auto simp: fold_item_update statuses_valid_def list_all_iff)
  show ?thesis
    using assms del upd
    by (simp add: bulk_update_items_def Let_def commit_stores split: option.splits)
qed

lemma bulk_commit_failure_stores_nothing:
  "snd (bulk_update_todos (Some e) d uid ids a st) = d"
  "snd (bulk_update_items (Some e) d uid ids a) = d"
  by (simp_all add: bulk_update_todos_def bulk_update_items_def except_rollback_def commit_def
      Let_def)

subsection \<open>Primary keys stay unique\<close>

lemma fold_max_ge: "(a::int) \<le> fold max ids a"
proof (induction ids arbitrary: a)
  case Nil
  then show ?case by simp
next
  case (Cons y ys)
  have "a \<le> max y a" by simp
  also have "\<dots> \<le> fold max ys (max y a)" by (rule Cons.IH)
  finally show ?case by simp
qed

lemma fold_max_bound: "x \<in> set ids \<Longrightarrow> (x::int) \<le> fold max ids a"
proof (induction ids arbitrary: a)
  case Nil
  then show ?case by simp
next
  case (Cons y ys)
  show ?case
  proof (cases "x = y")
    case True
    have "max y a \<le> fold max ys (max y a)" by (rule fold_max_ge)
    with True show ?thesis by simp
  next
    case False
    with Cons show ?thesis by simp
  qed
qed

lemma next_id_fresh: "next_id ids \<notin> set ids"
proof
  assume "next_id ids \<in> set ids"
  then have "next_id ids \<le> fold max ids 0" by (rule fold_max_bound)
  then show False by (simp add: next_id_def)
qed

lemma wf_db_commit:
  "wf_db d \<Longrightarrow> wf_db pending \<Longrightarrow> wf_db (snd (commit cf pending d r))"
  by (simp add: commit_stores split: option.splits)

lemma wf_db_item_update:
  "(\<And>j. i_id (f j) = i_id j) \<Longrightarrow> wf_db d \<Longrightarrow> wf_db (item_update f i d)"
  by (simp add: wf_db_def item_update_def comp_def if_distrib cong: if_cong)

lemma wf_db_todo_update:
  "(\<And>u. t_id (f u) = t_id u) \<Longrightarrow> wf_db d \<Longrightarrow> wf_db (todo_update f t d)"
  by (simp add: wf_db_def todo_update_def comp_def if_distrib cong: if_cong)

lemma wf_db_delete_item: "wf_db d \<Longrightarrow> wf_db (session_delete_item i d)"
  by (simp add: wf_db_def session_delete_item_def distinct_map_filter)

lemma wf_db_delete_todo: "wf_db d \<Longrightarrow> wf_db (session_delete_todo t d)"
  by (simp add: wf_db_def session_delete_todo_def distinct_map_filter)

lemma wf_db_fold:
  "(\<And>x d. wf_db d \<Longrightarrow> wf_db (g x d)) \<Longrightarrow> wf_db d \<Longrightarrow> wf_db (fold g xs d)"
  by (induction xs arbitrary: d) simp_all

text \<open>
  Unique primary keys are an invariant of the store: they hold of the empty store and
  every operation that writes keeps them, whether or not its commit succeeds.
\<close>

lemma wf_db_empty: "wf_db \<lparr>todos_tbl = [], items_tbl = []\<rparr>"
  by (simp add: wf_db_def)

lemma wf_db_preserved:
  assumes "wf_db d"
  shows "wf_db (snd (add_item_to_todo cf d tid uid content due s))"
    and "wf_db (snd (update_item_status cf d iid uid s))"
    and "wf_db (snd (delete_item cf d iid uid))"
    and "wf_db (snd (bulk_update_items cf d uid ids action))"
    and "wf_db (snd (create_todo cf d title uid descr st))"
    and "wf_db (snd (update_todo cf d tid uid data))"
    and "wf_db (snd (delete_todo cf d tid uid))"
    and "wf_db (snd (bulk_update_todos cf d uid ids action st))"
proof -
  show "wf_db (snd (add_item_to_todo cf d tid uid content due s))"
    using assms next_id_fresh [of "map i_id (items_tbl d)"]
    by (simp add: add_item_to_todo_def Let_def commit_stores session_add_item_def wf_db_def
        split: option.splits)
  show "wf_db (snd (update_item_status cf d iid uid s))"
    using assms
    by (simp add: update_item_status_def commit_stores wf_db_item_update split: option.splits)
  show "wf_db (snd (delete_item cf d iid uid))"
    using assms by (simp add: delete_item_def commit_stores wf_db_delete_item split: option.splits)
  show "wf_db (snd (bulk_update_items cf d uid ids action))"
    using assms
    by (simp add: bulk_update_items_def Let_def commit_stores wf_db_fold wf_db_delete_item
        wf_db_item_update split: option.splits)
  show "wf_db (snd (create_todo cf d title uid descr st))"
    using assms next_id_fresh [of "map t_id (todos_tbl d)"]
    by (simp add: create_todo_def Let_def commit_stores wf_db_def split: option.splits)
  show "wf_db (snd (update_todo cf d tid uid data))"
    using assms
    by (simp add: update_todo_def commit_stores wf_db_todo_update merge_payload_fields
        split: option.splits)
  show "wf_db (snd (delete_todo cf d tid uid))"
    using assms by (simp add: delete_todo_def commit_stores wf_db_delete_todo split: option.splits)
  show "wf_db (snd (bulk_update_todos cf d uid ids action st))"
    using assms
    by (simp add: bulk_update_todos_def except_rollback_def Let_def commit_def wf_db_fold
        wf_db_delete_todo wf_db_todo_update split: option.splits)
qed

section \<open>The claims\<close>

text \<open>
  C1, as amended. On a store with unique primary keys, a lookup of a Todo or an Item by
  id for a requesting user finds the entity exactly when it is stored and its ownership
  chain (Todo to user, Item to Todo to user) ends at that user. When the lookup finds
  nothing, update and delete return the same not-found answer and leave the store as it
  was, whether the id is unknown or belongs to another user, so two such requests cannot
  be told apart. When it finds the entity and the commit succeeds, read-one returns it,
  \<^verbatim>\<open>update_todo\<close> returns the Todo with the payload merged and stores it in that
  row, the deletes answer success and remove the row (a Todo with its Items), and
  \<^verbatim>\<open>update_item_status\<close> returns the Item with the new status and stores it in that
  row when the new status is one of Pending, Partially Completed, Completed. With any
  other status the owner gets the "Invalid status" error, no entity, and the store is
  as it was.
\<close>

theorem ownership_scoped_lookup:
  assumes "wf_db d"
  shows
    "(get_todo_by_id d tid uid = Some t
        \<longleftrightarrow> t \<in> set (todos_tbl d) \<and> t_id t = tid \<and> t_user_id t = uid)
   \<and> (get_item_by_id d iid uid = Some i
        \<longleftrightarrow> i \<in> set (items_tbl d) \<and> i_id i = iid \<and> item_owner d i = Some uid)
   \<and> (get_todo_by_id d tid uid = None \<longrightarrow>
        update_todo cf d tid uid data = (Returned (None, Some ''Todo not found''), d)
      \<and> delete_todo cf d tid uid = (Returned (False, Some ''Todo not found''), d))
   \<and> (get_item_by_id d iid uid = None \<longrightarrow>
        update_item_status cf d iid uid s
          = (Returned (None, Some ''Item not found or you don't have permission''), d)
      \<and> delete_item cf d iid uid
          = (Returned (False, Some ''Item not found or you don't have permission''), d))
   \<and> (get_todo_by_id d tid uid = Some t \<longrightarrow>
        update_todo None d tid uid data
          = (Returned (Some (merge_payload data t), None),
             d\<lparr>todos_tbl := map (\<lambda>u. if u = t then merge_payload data t else u) (todos_tbl d)\<rparr>)
      \<and> delete_todo None d tid uid
          = (Returned (True, None),
             d\<lparr>todos_tbl := filter (\<lambda>u. u \<noteq> t) (todos_tbl d),
               items_tbl := filter (\<lambda>j. i_todo_id j \<noteq> tid) (items_tbl d)\<rparr>))
   \<and> (get_item_by_id d iid uid = Some i \<longrightarrow>
        (s \<in> {''Pending'', ''Partially Completed'', ''Completed''} \<longrightarrow>
           update_item_status None d iid uid s
             = (Returned (Some (i\<lparr>i_status := s\<rparr>), None),
                d\<lparr>items_tbl := map (\<lambda>j. if j = i then i\<lparr>i_status := s\<rparr> else j) (items_tbl d)\<rparr>))
      \<and> (s \<notin> {''Pending'', ''Partially Completed'', ''Completed''} \<longrightarrow>
           update_item_status cf d iid uid s
             = (Returned (None,
                  Some ''Invalid status. Must be one of ['Pending', 'Partially Completed', 'Completed']''),
                d))
      \<and> delete_item None d iid uid
          = (Returned (True, None), d\<lparr>items_tbl := filter (\<lambda>j. j \<noteq> i) (items_tbl d)\<rparr>))
   \<and> (get_todo_by_id d tid uid = None \<and> get_todo_by_id d tid' uid = None \<longrightarrow>
        update_todo cf d tid uid data = update_todo cf d tid' uid data
      \<and> delete_todo cf d tid uid = delete_todo cf d tid' uid)
   \<and> (get_item_by_id d iid uid = None \<and> get_item_by_id d iid' uid = None \<longrightarrow>
        update_item_status cf d iid uid s = update_item_status cf d iid' uid s
      \<and> delete_item cf d iid uid = delete_item cf d iid' uid)"
proof -
  from assms have dt: "distinct (map t_id (todos_tbl d))"
    and di: "distinct (map i_id (items_tbl d))"
    by (simp_all add: wf_db_def)
  have v: "set VALID_STATUSES = {''Pending'', ''Partially Completed'', ''Completed''}"
    by (simp add: VALID_STATUSES_def)
  have a: "get_todo_by_id d tid uid = Some t
        \<longleftrightarrow> t \<in> set (todos_tbl d) \<and> t_id t = tid \<and> t_user_id t = uid"
    using assms by (simp add: get_todo_by_id_def todo_first_Some_iff)
  have b: "get_item_by_id d iid uid = Some i
        \<longleftrightarrow> i \<in> set (items_tbl d) \<and> i_id i = iid \<and> item_owner d i = Some uid"
    using assms by (simp add: get_item_by_id_def item_first_Some_iff)
  have c: "get_todo_by_id d tid uid = None \<longrightarrow>
        update_todo cf d tid uid data = (Returned (None, Some ''Todo not found''), d)
      \<and> delete_todo cf d tid uid = (Returned (False, Some ''Todo not found''), d)"
    by (simp add: get_todo_by_id_def update_todo_def delete_todo_def)
  have e: "get_item_by_id d iid uid = None \<longrightarrow>
        update_item_status cf d iid uid s
          = (Returned (None, Some ''Item not found or you don't have permission''), d)
      \<and> delete_item cf d iid uid
          = (Returned (False, Some ''Item not found or you don't have permission''), d)"
    by (simp add: get_item_by_id_def update_item_status_def delete_item_def item_not_found_def)
  have f: "get_todo_by_id d tid uid = Some t \<longrightarrow>
        update_todo None d tid uid data
          = (Returned (Some (merge_payload data t), None),
             d\<lparr>todos_tbl := map (\<lambda>u. if u = t then merge_payload data t else u) (todos_tbl d)\<rparr>)
      \<and> delete_todo None d tid uid
          = (Returned (True, None),
             d\<lparr>todos_tbl := filter (\<lambda>u. u \<noteq> t) (todos_tbl d),
               items_tbl := filter (\<lambda>j. i_todo_id j \<noteq> tid) (items_tbl d)\<rparr>)"
  proof
    assume g: "get_todo_by_id d tid uid = Some t"
    with a have mem: "t \<in> set (todos_tbl d)" and key: "t_id t = tid" by simp_all
    have same: "u \<in> set (todos_tbl d) \<Longrightarrow> (t_id u = tid) = (u = t)" for u
      using dt mem unfolding key [symmetric] by (meson distinct_map inj_onD)
    have m: "map (\<lambda>u. if t_id u = tid then merge_payload data u else u) (todos_tbl d)
        = map (\<lambda>u. if u = t then merge_payload data t else u) (todos_tbl d)"
      by (rule map_cong [OF refl]) (simp add: same)
    have fl: "filter (\<lambda>u. t_id u \<noteq> tid) (todos_tbl d) = filter (\<lambda>u. u \<noteq> t) (todos_tbl d)"
      by (rule filter_cong [OF refl]) (simp add: same)
    from g key show "update_todo None d tid uid data
          = (Returned (Some (merge_payload data t), None),
             d\<lparr>todos_tbl := map (\<lambda>u. if u = t then merge_payload data t else u) (todos_tbl d)\<rparr>)
      \<and> delete_todo None d tid uid
          = (Returned (True, None),
             d\<lparr>todos_tbl := filter (\<lambda>u. u \<noteq> t) (todos_tbl d),
               items_tbl := filter (\<lambda>j. i_todo_id j \<noteq> tid) (items_tbl d)\<rparr>)"
      by (simp add: get_todo_by_id_def update_todo_def delete_todo_def commit_def
          todo_update_def session_delete_todo_def m fl)
  qed
  have h: "get_item_by_id d iid uid = Some i \<longrightarrow>
        (s \<in> {''Pending'', ''Partially Completed'', ''Completed''} \<longrightarrow>
           update_item_status None d iid uid s
             = (Returned (Some (i\<lparr>i_status := s\<rparr>), None),
                d\<lparr>items_tbl := map (\<lambda>j. if j = i then i\<lparr>i_status := s\<rparr> else j) (items_tbl d)\<rparr>))
      \<and> (s \<notin> {''Pending'', ''Partially Completed'', ''Completed''} \<longrightarrow>
           update_item_status cf d iid uid s
             = (Returned (None,
                  Some ''Invalid status. Must be one of ['Pending', 'Partially Completed', 'Completed']''),
                d))
      \<and> delete_item None d iid uid
          = (Returned (True, None), d\<lparr>items_tbl := filter (\<lambda>j. j \<noteq> i) (items_tbl d)\<rparr>)"
  proof
    assume g: "get_item_by_id d iid uid = Some i"
    with b have mem: "i \<in> set (items_tbl d)" and key: "i_id i = iid" by simp_all
    from g have first: "item_first d iid uid = Some i" by (simp add: get_item_by_id_def)
    have same: "j \<in> set (items_tbl d) \<Longrightarrow> (i_id j = iid) = (j = i)" for j
      using di mem unfolding key [symmetric] by (meson distinct_map inj_onD)
    have m: "map (\<lambda>j. if i_id j = iid then j\<lparr>i_status := s\<rparr> else j) (items_tbl d)
        = map (\<lambda>j. if j = i then i\<lparr>i_status := s\<rparr> else j) (items_tbl d)"
      by (rule map_cong [OF refl]) (simp add: same)
    have fl: "filter (\<lambda>j. i_id j \<noteq> iid) (items_tbl d) = filter (\<lambda>j. j \<noteq> i) (items_tbl d)"
      by (rule filter_cong [OF refl]) (simp add: same)
    have ok: "s \<in> {''Pending'', ''Partially Completed'', ''Completed''} \<longrightarrow>
           update_item_status None d iid uid s
             = (Returned (Some (i\<lparr>i_status := s\<rparr>), None),
                d\<lparr>items_tbl := map (\<lambda>j. if j = i then i\<lparr>i_status := s\<rparr> else j) (items_tbl d)\<rparr>)"
      using first key unfolding v [symmetric]
      by (simp add: update_item_status_def commit_def item_update_def m)
    have bad: "s \<notin> {''Pending'', ''Partially Completed'', ''Completed''} \<longrightarrow>
           update_item_status cf d iid uid s
             = (Returned (None,
                  Some ''Invalid status. Must be one of ['Pending', 'Partially Completed', 'Completed']''),
                d)"
      using first unfolding v [symmetric]
      by (simp add: update_item_status_def invalid_status_text)
    have del: "delete_item None d iid uid
          = (Returned (True, None), d\<lparr>items_tbl := filter (\<lambda>j. j \<noteq> i) (items_tbl d)\<rparr>)"
      using first key by (simp add: delete_item_def commit_def session_delete_item_def fl)
    from ok bad del show "(s \<in> {''Pending'', ''Partially Completed'', ''Completed''} \<longrightarrow>
           update_item_status None d iid uid s
             = (Returned (Some (i\<lparr>i_status := s\<rparr>), None),
                d\<lparr>items_tbl := map (\<lambda>j. if j = i then i\<lparr>i_status := s\<rparr> else j) (items_tbl d)\<rparr>))
      \<and> (s \<notin> {''Pending'', ''Partially Completed'', ''Completed''} \<longrightarrow>
           update_item_status cf d iid uid s
             = (Returned (None,
                  Some ''Invalid status. Must be one of ['Pending', 'Partially Completed', 'Completed']''),
                d))
      \<and> delete_item None d iid uid
          = (Returned (True, None), d\<lparr>items_tbl := filter (\<lambda>j. j \<noteq> i) (items_tbl d)\<rparr>)"
      by (intro conjI)
  qed
  have k: "get_todo_by_id d tid uid = None \<and> get_todo_by_id d tid' uid = None \<longrightarrow>
        update_todo cf d tid uid data = update_todo cf d tid' uid data
      \<and> delete_todo cf d tid uid = delete_todo cf d tid' uid"
    by (simp add: get_todo_by_id_def update_todo_def delete_todo_def)
  have l: "get_item_by_id d iid uid = None \<and> get_item_by_id d iid' uid = None \<longrightarrow>
        update_item_status cf d iid uid s = update_item_status cf d iid' uid s
      \<and> delete_item cf d iid uid = delete_item cf d iid' uid"
    by (simp add: get_item_by_id_def update_item_status_def delete_item_def)
  from a b c e f h k l show ?thesis by (intro conjI)
qed

theorem ownership_scoped_lookup_witness:
  "wf_db db0
   \<and> get_item_by_id db0 3 2 = Some item3
   \<and> update_item_status None db0 3 2 ''Completed''
       = (Returned (Some (item3\<lparr>i_status := ''Completed''\<rparr>), None),
          db0\<lparr>items_tbl := [item1, item2, item3\<lparr>i_status := ''Completed''\<rparr>]\<rparr>)
   \<and> delete_item None db0 3 2 = (Returned (True, None), db0\<lparr>items_tbl := [item1, item2]\<rparr>)
   \<and> get_item_by_id db0 3 1 = None
   \<and> get_item_by_id db0 99 1 = None
   \<and> update_item_status None db0 3 1 ''Completed''
       = (Returned (None, Some ''Item not found or you don't have permission''), db0)
   \<and> update_item_status None db0 3 1 ''Completed'' = update_item_status None db0 99 1 ''Completed''
   \<and> delete_item None db0 3 1 = delete_item None db0 99 1
   \<and> get_todo_by_id db0 3 2 = Some todo3
   \<and> update_todo None db0 3 2 [''title'' \<mapsto> PStr ''mine'']
       = (Returned (Some (todo3\<lparr>t_title := PStr ''mine''\<rparr>), None),
          db0\<lparr>todos_tbl := [todo1, todo2, todo3\<lparr>t_title := PStr ''mine''\<rparr>]\<rparr>)
   \<and> delete_todo None db0 3 2
       = (Returned (True, None), db0\<lparr>todos_tbl := [todo1, todo2], items_tbl := [item1, item2]\<rparr>)
   \<and> get_todo_by_id db0 3 1 = None
   \<and> get_todo_by_id db0 99 1 = None
   \<and> update_todo None db0 3 1 [''title'' \<mapsto> PStr ''mine'']
       = (Returned (None, Some ''Todo not found''), db0)
   \<and> update_todo None db0 3 1 [''title'' \<mapsto> PStr ''mine'']
       = update_todo None db0 99 1 [''title'' \<mapsto> PStr ''mine'']
   \<and> delete_todo None db0 3 1 = delete_todo None db0 99 1"
proof -
  let ?data = "[''title'' \<mapsto> PStr ''mine'']"
  have i_owner: "get_item_by_id db0 3 2 = Some item3" by (simp add: lookups db0_rows)
  have i_other: "get_item_by_id db0 3 1 = None" by (simp add: lookups db0_rows)
  have i_ghost: "get_item_by_id db0 99 1 = None" by (simp add: lookups db0_rows)
  have t_owner: "get_todo_by_id db0 3 2 = Some todo3" by (simp add: lookups db0_rows)
  have t_other: "get_todo_by_id db0 3 1 = None" by (simp add: lookups db0_rows)
  have t_ghost: "get_todo_by_id db0 99 1 = None" by (simp add: lookups db0_rows)
  have valid: "''Completed'' \<in> {''Pending'', ''Partially Completed'', ''Completed''}" by simp
  have mp: "merge_payload ?data todo3 = todo3\<lparr>t_title := PStr ''mine''\<rparr>"
    by (simp add: merge_payload_def)
  have mt: "map (\<lambda>u. if u = todo3 then todo3\<lparr>t_title := PStr ''mine''\<rparr> else u) (todos_tbl db0)
      = [todo1, todo2, todo3\<lparr>t_title := PStr ''mine''\<rparr>]"
    by (simp add: db0_rows)
  have ft: "filter (\<lambda>u. u \<noteq> todo3) (todos_tbl db0) = [todo1, todo2]"
    by (simp add: db0_rows)
  have fc: "filter (\<lambda>j. i_todo_id j \<noteq> 3) (items_tbl db0) = [item1, item2]"
    by (simp add: db0_rows)
  have mi: "map (\<lambda>j. if j = item3 then item3\<lparr>i_status := ''Completed''\<rparr> else j) (items_tbl db0)
      = [item1, item2, item3\<lparr>i_status := ''Completed''\<rparr>]"
    by (simp add: db0_rows)
  have fi: "filter (\<lambda>j. j \<noteq> item3) (items_tbl db0) = [item1, item2]"
    by (simp add: db0_rows)
  note own = ownership_scoped_lookup [OF wf_db0, where tid = 3 and tid' = 99 and uid = 2
      and iid = 3 and iid' = 99 and cf = None and s = "''Completed''"
      and data = ?data and t = todo3 and i = item3]
  note own_tail = conjunct2 [OF conjunct2 [OF conjunct2 [OF conjunct2 [OF own]]]]
  note todo_found = conjunct1 [OF own_tail]
  note item_found = conjunct1 [OF conjunct2 [OF own_tail]]
  from todo_found t_owner
  have o1: "update_todo None db0 3 2 ?data
       = (Returned (Some (todo3\<lparr>t_title := PStr ''mine''\<rparr>), None),
          db0\<lparr>todos_tbl := [todo1, todo2, todo3\<lparr>t_title := PStr ''mine''\<rparr>]\<rparr>)"
    and o2: "delete_todo None db0 3 2
       = (Returned (True, None), db0\<lparr>todos_tbl := [todo1, todo2], items_tbl := [item1, item2]\<rparr>)"
    unfolding mp mt ft fc by blast+
  from item_found i_owner valid
  have o3: "update_item_status None db0 3 2 ''Completed''
       = (Returned (Some (item3\<lparr>i_status := ''Completed''\<rparr>), None),
          db0\<lparr>items_tbl := [item1, item2, item3\<lparr>i_status := ''Completed''\<rparr>]\<rparr>)"
    and o4: "delete_item None db0 3 2 = (Returned (True, None), db0\<lparr>items_tbl := [item1, item2]\<rparr>)"
    unfolding mi fi by blast+
  note run = ownership_scoped_lookup [OF wf_db0, where tid = 3 and tid' = 99 and uid = 1
      and iid = 3 and iid' = 99 and cf = None and s = "''Completed''"
      and data = ?data and t = todo3 and i = item3]
  note tail = conjunct2 [OF conjunct2 [OF run]]
  note todo_none = conjunct1 [OF tail]
  note item_none = conjunct1 [OF conjunct2 [OF tail]]
  note pairs = conjunct2 [OF conjunct2 [OF conjunct2 [OF conjunct2 [OF tail]]]]
  note todo_pair = conjunct1 [OF pairs]
  note item_pair = conjunct2 [OF pairs]
  from item_none i_other
  have r1: "update_item_status None db0 3 1 ''Completed''
       = (Returned (None, Some ''Item not found or you don't have permission''), db0)"
    by blast
  from item_pair i_other i_ghost
  have r2: "update_item_status None db0 3 1 ''Completed'' = update_item_status None db0 99 1 ''Completed''"
    and r3: "delete_item None db0 3 1 = delete_item None db0 99 1"
    by blast+
  from todo_none t_other
  have r4: "update_todo None db0 3 1 ?data = (Returned (None, Some ''Todo not found''), db0)"
    by blast
  from todo_pair t_other t_ghost
  have r5: "update_todo None db0 3 1 ?data = update_todo None db0 99 1 ?data"
    and r6: "delete_todo None db0 3 1 = delete_todo None db0 99 1"
    by blast+
  from wf_db0 i_owner o3 o4 i_other i_ghost r1 r2 r3 t_owner o1 o2 t_other t_ghost r4 r5 r6
  show ?thesis by (intro conjI)
qed

text \<open>
  The claim as first stated fails for the owner of an item who sends a status outside the
  three values: the item is stored and owned, and \<^verbatim>\<open>update_item_status\<close> returns
  neither the item nor the not-found answer.
\<close>

theorem ownership_scoped_lookup_counterexample:
  "get_item_by_id db0 1 1 = Some item1
   \<and> item_owner db0 item1 = Some 1
   \<and> update_item_status None db0 1 1 ''Bogus''
       = (Returned (None,
            Some ''Invalid status. Must be one of ['Pending', 'Partially Completed', 'Completed']''),
          db0)
   \<and> fst (update_item_status None db0 1 1 ''Bogus'') \<noteq> Returned (Some item1, None)
   \<and> fst (update_item_status None db0 1 1 ''Bogus'')
       \<noteq> Returned (None, Some ''Item not found or you don't have permission'')"
  by (simp add: update_item_status_def lookups VALID_STATUSES_def invalid_status_text db0_rows)

text \<open>
  C2. On a store with unique primary keys, a bulk operation restricts the requested ids
  to the rows that exist and are owned by the requesting user. When none is left it
  answers not-found and stores nothing; otherwise a delete removes exactly the restricted
  rows (for Todos together with their Items, by the cascade) and a status assignment
  changes the status of exactly the restricted rows, and the answer names no id.
\<close>

theorem bulk_operations_owned_only:
  assumes "wf_db d"
  shows
    "(filter (\<lambda>i. i_id i \<in> set ids \<and> item_owner d i = Some uid) (items_tbl d) = [] \<longrightarrow>
        bulk_update_items cf d uid ids action
          = (Returned (False, Some ''Item not found or you don't have permission''), d))
   \<and> (filter (\<lambda>i. i_id i \<in> set ids \<and> item_owner d i = Some uid) (items_tbl d) \<noteq> [] \<longrightarrow>
        bulk_update_items None d uid ids ''delete''
          = (Returned (True, None),
             d\<lparr>items_tbl := filter (\<lambda>i. \<not> (i_id i \<in> set ids \<and> item_owner d i = Some uid))
                              (items_tbl d)\<rparr>))
   \<and> (filter (\<lambda>i. i_id i \<in> set ids \<and> item_owner d i = Some uid) (items_tbl d) \<noteq> []
        \<and> action \<in> {''Pending'', ''Partially Completed'', ''Completed''} \<longrightarrow>
        bulk_update_items None d uid ids action
          = (Returned (True, None),
             d\<lparr>items_tbl := map (\<lambda>i. if i_id i \<in> set ids \<and> item_owner d i = Some uid
                                       then i\<lparr>i_status := action\<rparr> else i) (items_tbl d)\<rparr>))
   \<and> (filter (\<lambda>t. t_id t \<in> set ids \<and> t_user_id t = uid) (todos_tbl d) = [] \<longrightarrow>
        bulk_update_todos cf d uid ids action status
          = ((False, Some ''No matching todos found''), d))
   \<and> (filter (\<lambda>t. t_id t \<in> set ids \<and> t_user_id t = uid) (todos_tbl d) \<noteq> [] \<longrightarrow>
        bulk_update_todos None d uid ids ''delete'' status
          = ((True, None),
             d\<lparr>todos_tbl := filter (\<lambda>t. \<not> (t_id t \<in> set ids \<and> t_user_id t = uid)) (todos_tbl d),
               items_tbl := filter (\<lambda>i. \<not> (i_todo_id i \<in> set ids \<and> item_owner d i = Some uid))
                              (items_tbl d)\<rparr>))
   \<and> (filter (\<lambda>t. t_id t \<in> set ids \<and> t_user_id t = uid) (todos_tbl d) \<noteq> [] \<and> truthy status \<longrightarrow>
        bulk_update_todos None d uid ids ''update_status'' status
          = ((True, None),
             d\<lparr>todos_tbl := map (\<lambda>t. if t_id t \<in> set ids \<and> t_user_id t = uid
                                       then t\<lparr>t_status := status\<rparr> else t) (todos_tbl d)\<rparr>))"
proof -
  have v: "set VALID_STATUSES = {''Pending'', ''Partially Completed'', ''Completed''}"
    by (simp add: VALID_STATUSES_def)
  show ?thesis
    using bulk_items_none [OF assms, of ids uid cf action]
      bulk_items_delete [OF assms, of ids uid]
      bulk_items_status [OF assms, of ids uid action]
      bulk_todos_none [of ids uid d cf action status]
      bulk_todos_delete [OF assms, of ids uid status]
      bulk_todos_status [OF assms, of ids uid status]
    unfolding v item_not_found_def by blast
qed

theorem bulk_operations_owned_only_witness:
  "wf_db db0
   \<and> bulk_update_items None db0 1 [1, 3] ''Completed''
       = (Returned (True, None),
          db0\<lparr>items_tbl := [item1\<lparr>i_status := ''Completed''\<rparr>, item2, item3]\<rparr>)
   \<and> bulk_update_items None db0 1 [3] ''delete''
       = (Returned (False, Some ''Item not found or you don't have permission''), db0)
   \<and> bulk_update_todos None db0 1 [1, 3] ''delete'' PNone
       = ((True, None), db0\<lparr>todos_tbl := [todo2, todo3], items_tbl := [item3]\<rparr>)
   \<and> bulk_update_todos None db0 1 [3] ''delete'' PNone
       = ((False, Some ''No matching todos found''), db0)"
proof -
  have i13: "filter (\<lambda>i. i_id i \<in> set [1, 3] \<and> item_owner db0 i = Some 1) (items_tbl db0) \<noteq> []"
    by (simp add: item_owner_def db0_rows)
  have i3: "filter (\<lambda>i. i_id i \<in> set [3] \<and> item_owner db0 i = Some 1) (items_tbl db0) = []"
    by (simp add: item_owner_def db0_rows)
  have t13: "filter (\<lambda>t. t_id t \<in> set [1, 3] \<and> t_user_id t = 1) (todos_tbl db0) \<noteq> []"
    by (simp add: db0_rows)
  have t3: "filter (\<lambda>t. t_id t \<in> set [3] \<and> t_user_id t = 1) (todos_tbl db0) = []"
    by (simp add: db0_rows)
  have m: "map (\<lambda>i. if i_id i \<in> set [1, 3] \<and> item_owner db0 i = Some 1
                     then i\<lparr>i_status := ''Completed''\<rparr> else i) (items_tbl db0)
           = [item1\<lparr>i_status := ''Completed''\<rparr>, item2, item3]"
    by (simp add: item_owner_def db0_rows)
  have ft: "filter (\<lambda>t. \<not> (t_id t \<in> set [1, 3] \<and> t_user_id t = 1)) (todos_tbl db0) = [todo2, todo3]"
    by (simp add: db0_rows)
  have fi: "filter (\<lambda>i. \<not> (i_todo_id i \<in> set [1, 3] \<and> item_owner db0 i = Some 1)) (items_tbl db0)
            = [item3]"
    by (simp add: item_owner_def db0_rows)
  note a = bulk_operations_owned_only [OF wf_db0, of "[1, 3]" 1 None "''Completed''" PNone]
  note b = bulk_operations_owned_only [OF wf_db0, of "[3]" 1 None "''delete''" PNone]
  from a i13 have c1: "bulk_update_items None db0 1 [1, 3] ''Completed''
       = (Returned (True, None),
          db0\<lparr>items_tbl := [item1\<lparr>i_status := ''Completed''\<rparr>, item2, item3]\<rparr>)"
    unfolding m by simp
  from b i3 have c2: "bulk_update_items None db0 1 [3] ''delete''
       = (Returned (False, Some ''Item not found or you don't have permission''), db0)"
    by blast
  from a t13 have c3: "bulk_update_todos None db0 1 [1, 3] ''delete'' PNone
       = ((True, None), db0\<lparr>todos_tbl := [todo2, todo3], items_tbl := [item3]\<rparr>)"
    unfolding ft fi by blast
  from b t3 have c4: "bulk_update_todos None db0 1 [3] ''delete'' PNone
       = ((False, Some ''No matching todos found''), db0)"
    by blast
  from wf_db0 c1 c2 c3 c4 show ?thesis by blast
qed

text \<open>
  C3. \<^verbatim>\<open>update_item_status\<close> and \<^verbatim>\<open>bulk_update_items\<close> keep the status invariant
  (\<open>update_item_status_keeps_valid\<close>, \<open>bulk_update_items_keeps_valid\<close>), but
  \<^verbatim>\<open>add_item_to_todo\<close> stores the status it is given without looking at
  \<^verbatim>\<open>VALID_STATUSES\<close>: called by the owner of todo 1 with the status "Done", it stores
  an item whose status is "Done".
\<close>

theorem add_item_persists_unvalidated_status:
  "add_item_to_todo None db0 1 1 ''call bank'' None ''Done''
     = (Returned (Some \<lparr>i_id = 4, i_content = ''call bank'', i_status = ''Done'',
                        i_due_date = None, i_todo_id = 1\<rparr>, None),
        db0\<lparr>items_tbl := [item1, item2, item3,
                           \<lparr>i_id = 4, i_content = ''call bank'', i_status = ''Done'',
                             i_due_date = None, i_todo_id = 1\<rparr>]\<rparr>)
   \<and> ''Done'' \<notin> set VALID_STATUSES"
  by (simp add: add_item_to_todo_def todo_first_def commit_def session_add_item_def next_id_def
      VALID_STATUSES_def Let_def db0_rows)

text \<open>
  C4. When the owner of an item calls \<^verbatim>\<open>update_item_status\<close> with a status outside
  Pending, Partially Completed, Completed, the call returns the "Invalid status" error
  that lists the three statuses, and the store (so the item's status) is as it was.
\<close>

theorem invalid_item_status_rejected:
  assumes "wf_db d" and "i \<in> set (items_tbl d)" and "i_id i = iid"
    and "item_owner d i = Some uid"
    and "s \<notin> {''Pending'', ''Partially Completed'', ''Completed''}"
  shows "update_item_status cf d iid uid s
         = (Returned (None,
              Some ''Invalid status. Must be one of ['Pending', 'Partially Completed', 'Completed']''),
            d)"
proof -
  from assms(1-4) have "item_first d iid uid = Some i"
    by (simp add: item_first_Some_iff)
  moreover from assms(5) have "s \<notin> set VALID_STATUSES"
    by (simp add: VALID_STATUSES_def)
  ultimately show ?thesis
    by (simp add: update_item_status_def invalid_status_text)
qed

theorem invalid_item_status_rejected_witness:
  "wf_db db0 \<and> item1 \<in> set (items_tbl db0) \<and> i_id item1 = 1 \<and> item_owner db0 item1 = Some 1
   \<and> ''Done'' \<notin> {''Pending'', ''Partially Completed'', ''Completed''}
   \<and> update_item_status None db0 1 1 ''Done''
       = (Returned (None,
            Some ''Invalid status. Must be one of ['Pending', 'Partially Completed', 'Completed']''),
          db0)
   \<and> get_item_by_id db0 1 1 = Some item1 \<and> i_status item1 = ''Pending''"
proof -
  have a: "item1 \<in> set (items_tbl db0)" by (simp add: db0_def)
  have b: "i_id item1 = 1" by (simp add: item1_def)
  have c: "item_owner db0 item1 = Some 1" by (simp add: item_owner_def db0_rows)
  have e: "''Done'' \<notin> {''Pending'', ''Partially Completed'', ''Completed''}" by simp
  have g: "get_item_by_id db0 1 1 = Some item1" by (simp add: lookups db0_rows)
  have h: "i_status item1 = ''Pending''" by (simp add: item1_def)
  from invalid_item_status_rejected [OF wf_db0 a b c e, of None] wf_db0 a b c e g h
  show ?thesis by blast
qed

text \<open>
  C5. When the owner of a stored Todo deletes it and the commit succeeds, the Todo is
  gone and so is every Item whose \<^verbatim>\<open>todo_id\<close> names it, in the one commit: no
  Item with that \<^verbatim>\<open>todo_id\<close> is left, and the Items table has lost exactly those N
  rows, for any N.
\<close>

theorem delete_todo_cascades:
  assumes "t \<in> set (todos_tbl d)" and "t_id t = tid" and "t_user_id t = uid"
  shows "\<exists>d'. delete_todo None d tid uid = (Returned (True, None), d')
           \<and> todos_tbl d' = filter (\<lambda>u. t_id u \<noteq> tid) (todos_tbl d)
           \<and> items_tbl d' = filter (\<lambda>j. i_todo_id j \<noteq> tid) (items_tbl d)
           \<and> filter (\<lambda>j. i_todo_id j = tid) (items_tbl d') = []
           \<and> length (items_tbl d') + length (filter (\<lambda>j. i_todo_id j = tid) (items_tbl d))
               = length (items_tbl d)"
proof -
  from assms have "todo_first d tid uid \<noteq> None"
    by (auto simp: todo_first_def find_None_iff)
  then obtain t' where f: "todo_first d tid uid = Some t'" by blast
  then have k: "t_id t' = tid"
    by (auto simp: todo_first_def find_Some_iff)
  let ?d' = "session_delete_todo t' d"
  have run: "delete_todo None d tid uid = (Returned (True, None), ?d')"
    using f by (simp add: delete_todo_def commit_def)
  have ts: "todos_tbl ?d' = filter (\<lambda>u. t_id u \<noteq> tid) (todos_tbl d)"
    and its: "items_tbl ?d' = filter (\<lambda>j. i_todo_id j \<noteq> tid) (items_tbl d)"
    using k by (simp_all add: session_delete_todo_def)
  have none: "filter (\<lambda>j. i_todo_id j = tid) (items_tbl ?d') = []"
    unfolding its by (simp add: filter_empty_conv)
  have "length (filter (\<lambda>j. i_todo_id j = tid) (items_tbl d))
          + length (filter (\<lambda>j. \<not> i_todo_id j = tid) (items_tbl d)) = length (items_tbl d)"
    by (rule sum_length_filter_compl)
  then have len: "length (items_tbl ?d') + length (filter (\<lambda>j. i_todo_id j = tid) (items_tbl d))
               = length (items_tbl d)"
    unfolding its by simp
  from run ts its none len show ?thesis by blast
qed

theorem delete_todo_cascades_witness:
  "todo1 \<in> set (todos_tbl db0) \<and> t_id todo1 = 1 \<and> t_user_id todo1 = 1
   \<and> length (filter (\<lambda>j. i_todo_id j = 1) (items_tbl db0)) = 2
   \<and> delete_todo None db0 1 1
       = (Returned (True, None), \<lparr>todos_tbl = [todo2, todo3], items_tbl = [item3]\<rparr>)
   \<and> todo2 \<in> set (todos_tbl db0) \<and> t_id todo2 = 2 \<and> t_user_id todo2 = 1
   \<and> length (filter (\<lambda>j. i_todo_id j = 2) (items_tbl db0)) = 0
   \<and> delete_todo None db0 2 1
       = (Returned (True, None), \<lparr>todos_tbl = [todo1, todo3], items_tbl = [item1, item2, item3]\<rparr>)"
proof -
  have a1: "todo1 \<in> set (todos_tbl db0)" and b1: "t_id todo1 = 1" and c1: "t_user_id todo1 = 1"
    by (simp_all add: db0_rows)
  have a2: "todo2 \<in> set (todos_tbl db0)" and b2: "t_id todo2 = 2" and c2: "t_user_id todo2 = 1"
    by (simp_all add: db0_rows)
  have n1: "length (filter (\<lambda>j. i_todo_id j = 1) (items_tbl db0)) = 2"
    and n2: "length (filter (\<lambda>j. i_todo_id j = 2) (items_tbl db0)) = 0"
    by (simp_all add: db0_rows)
  have f1: "filter (\<lambda>u. t_id u \<noteq> 1) (todos_tbl db0) = [todo2, todo3]"
    and g1: "filter (\<lambda>j. i_todo_id j \<noteq> 1) (items_tbl db0) = [item3]"
    and f2: "filter (\<lambda>u. t_id u \<noteq> 2) (todos_tbl db0) = [todo1, todo3]"
    and g2: "filter (\<lambda>j. i_todo_id j \<noteq> 2) (items_tbl db0) = [item1, item2, item3]"
    by (simp_all add: db0_rows)
  from delete_todo_cascades [OF a1 b1 c1]
  obtain d1 where r1: "delete_todo None db0 1 1 = (Returned (True, None), d1)"
    and "todos_tbl d1 = [todo2, todo3]" and "items_tbl d1 = [item3]"
    unfolding f1 g1 by blast
  then have e1: "d1 = \<lparr>todos_tbl = [todo2, todo3], items_tbl = [item3]\<rparr>" by simp
  from delete_todo_cascades [OF a2 b2 c2]
  obtain d2 where r2: "delete_todo None db0 2 1 = (Returned (True, None), d2)"
    and "todos_tbl d2 = [todo1, todo3]" and "items_tbl d2 = [item1, item2, item3]"
    unfolding f2 g2 by blast
  then have e2: "d2 = \<lparr>todos_tbl = [todo1, todo3], items_tbl = [item1, item2, item3]\<rparr>" by simp
  from a1 b1 c1 a2 b2 c2 n1 n2 r1 r2 show ?thesis unfolding e1 e2 by blast
qed

text \<open>
  C6. A commit that raises stores nothing in either bulk operation
  (\<open>bulk_commit_failure_stores_nothing\<close>). What the caller gets is not a generic
  message: \<^verbatim>\<open>bulk_update_todos\<close> returns the exception's own text, and
  \<^verbatim>\<open>bulk_update_items\<close> has no handler, so the exception escapes.
\<close>

theorem bulk_todos_commit_failure_reports_exception_text:
  "bulk_update_todos (Some ''(sqlite3.OperationalError) database is locked'') db0 1 [1] ''delete'' PNone
     = ((False, Some ''(sqlite3.OperationalError) database is locked''), db0)
   \<and> bulk_update_items (Some ''(sqlite3.OperationalError) database is locked'') db0 1 [1] ''delete''
     = (Raised ''(sqlite3.OperationalError) database is locked'', db0)"
  by (simp add: bulk_update_todos_def bulk_update_items_def except_rollback_def commit_def
      todos_in_def items_in_def item_join_todo_def Let_def db0_rows)

text \<open>
  C7. On a store with unique primary keys, an update of a Todo by its owner (the commit
  succeeding) sets each of title, description, status and completed that is a key of the
  payload to the payload's value and leaves the others, the id and the user id as they
  were; no other Todo and no Item changes.
\<close>

theorem update_todo_merges_supplied_fields:
  assumes "wf_db d" and "t \<in> set (todos_tbl d)" and "t_id t = tid" and "t_user_id t = uid"
  shows "\<exists>t' d'. update_todo None d tid uid data = (Returned (Some t', None), d')
           \<and> t_title t' = (case data ''title'' of None \<Rightarrow> t_title t | Some v \<Rightarrow> v)
           \<and> t_description t'
               = (case data ''description'' of None \<Rightarrow> t_description t | Some v \<Rightarrow> v)
           \<and> t_status t' = (case data ''status'' of None \<Rightarrow> t_status t | Some v \<Rightarrow> v)
           \<and> t_completed t'
               = (case data ''completed'' of None \<Rightarrow> t_completed t | Some v \<Rightarrow> v)
           \<and> t_id t' = t_id t
           \<and> t_user_id t' = t_user_id t
           \<and> todos_tbl d' = map (\<lambda>u. if u = t then t' else u) (todos_tbl d)
           \<and> items_tbl d' = items_tbl d"
proof -
  let ?t' = "merge_payload data t"
  let ?d' = "todo_update (merge_payload data) t d"
  from assms have f: "todo_first d tid uid = Some t"
    by (simp add: todo_first_Some_iff)
  then have run: "update_todo None d tid uid data = (Returned (Some ?t', None), ?d')"
    by (simp add: update_todo_def commit_def)
  from assms(1) have dt: "distinct (map t_id (todos_tbl d))" by (simp add: wf_db_def)
  have same: "u \<in> set (todos_tbl d) \<Longrightarrow> (t_id u = t_id t) = (u = t)" for u
    using dt assms(2) by (meson distinct_map inj_onD)
  have "map (\<lambda>u. if t_id u = t_id t then merge_payload data u else u) (todos_tbl d)
        = map (\<lambda>u. if u = t then ?t' else u) (todos_tbl d)"
    by (rule map_cong [OF refl]) (simp add: same)
  then have ts: "todos_tbl ?d' = map (\<lambda>u. if u = t then ?t' else u) (todos_tbl d)"
    and its: "items_tbl ?d' = items_tbl d"
    by (simp_all add: todo_update_def)
  from run ts its merge_payload_fields [of data t] show ?thesis by blast
qed

theorem update_todo_merges_supplied_fields_witness:
  "wf_db db0 \<and> todo1 \<in> set (todos_tbl db0) \<and> t_id todo1 = 1 \<and> t_user_id todo1 = 1
   \<and> update_todo None db0 1 1 [''title'' \<mapsto> PStr ''Final report'', ''completed'' \<mapsto> PBool True]
       = (Returned (Some (todo1\<lparr>t_title := PStr ''Final report'', t_completed := PBool True\<rparr>), None),
          db0\<lparr>todos_tbl := [todo1\<lparr>t_title := PStr ''Final report'', t_completed := PBool True\<rparr>,
                             todo2, todo3]\<rparr>)"
proof -
  let ?data = "[''title'' \<mapsto> PStr ''Final report'', ''completed'' \<mapsto> PBool True]"
  let ?new = "todo1\<lparr>t_title := PStr ''Final report'', t_completed := PBool True\<rparr>"
  have a: "todo1 \<in> set (todos_tbl db0)" and b: "t_id todo1 = 1" and c: "t_user_id todo1 = 1"
    by (simp_all add: db0_rows)
  from update_todo_merges_supplied_fields [OF wf_db0 a b c, of ?data]
  obtain t' d' where run: "update_todo None db0 1 1 ?data = (Returned (Some t', None), d')"
    and f1: "t_title t' = PStr ''Final report''"
    and f2: "t_description t' = t_description todo1"
    and f3: "t_status t' = t_status todo1"
    and f4: "t_completed t' = PBool True"
    and f5: "t_id t' = t_id todo1"
    and f6: "t_user_id t' = t_user_id todo1"
    and ts: "todos_tbl d' = map (\<lambda>u. if u = todo1 then t' else u) (todos_tbl db0)"
    and its: "items_tbl d' = items_tbl db0"
    by auto
  from f1 f2 f3 f4 f5 f6 have t': "t' = ?new" by simp
  have m: "map (\<lambda>u. if u = todo1 then ?new else u) (todos_tbl db0) = [?new, todo2, todo3]"
    by (simp add: db0_rows)
  from ts have ts': "todos_tbl d' = [?new, todo2, todo3]"
    unfolding t' m .
  have "d' = db0\<lparr>todos_tbl := [?new, todo2, todo3]\<rparr>"
    by (rule db.equality) (simp_all add: ts' its)
  with run t' wf_db0 a b c show ?thesis by simp
qed

text \<open>
  C8. An Item listing with per_page above 100 is the listing with per_page 100; for a
  Todo of the requesting user and a page and per_page of at least 1, the listing reports
  the clamped per_page and holds the window of that size, at most 100 rows. A Todo
  listing holds the window of the requested per_page, whatever its size.
\<close>

theorem listing_per_page_clamp:
  "(100 < pp \<longrightarrow> get_items_for_todo d tid uid page pp = get_items_for_todo d tid uid page 100)
   \<and> ((\<exists>t \<in> set (todos_tbl d). t_id t = tid \<and> t_user_id t = uid) \<and> 1 \<le> page \<and> 1 \<le> pp \<longrightarrow>
        (\<exists>r. get_items_for_todo d tid uid page pp = (Some r, None)
           \<and> l_per_page r = min pp 100
           \<and> l_items r = take (nat (min pp 100))
                            (drop (nat ((page - 1) * min pp 100))
                               (filter (\<lambda>i. i_todo_id i = tid) (items_tbl d)))
           \<and> length (l_items r) \<le> 100))
   \<and> (1 \<le> page \<and> 1 \<le> pp \<longrightarrow>
        get_todos d uid page pp
          = take (nat pp)
              (drop (nat ((page - 1) * pp)) (filter (\<lambda>t. t_user_id t = uid) (todos_tbl d))))"
proof -
  have a: "100 < pp \<longrightarrow>
      get_items_for_todo d tid uid page pp = get_items_for_todo d tid uid page 100"
  proof
    assume "100 < pp"
    then have "min pp 100 = min 100 (100::int)" by simp
    then show "get_items_for_todo d tid uid page pp = get_items_for_todo d tid uid page 100"
      unfolding get_items_for_todo_def by (rule arg_cong)
  qed
  have b: "(\<exists>t \<in> set (todos_tbl d). t_id t = tid \<and> t_user_id t = uid) \<and> 1 \<le> page \<and> 1 \<le> pp \<longrightarrow>
        (\<exists>r. get_items_for_todo d tid uid page pp = (Some r, None)
           \<and> l_per_page r = min pp 100
           \<and> l_items r = take (nat (min pp 100))
                            (drop (nat ((page - 1) * min pp 100))
                               (filter (\<lambda>i. i_todo_id i = tid) (items_tbl d)))
           \<and> length (l_items r) \<le> 100)"
  proof
    assume h: "(\<exists>t \<in> set (todos_tbl d). t_id t = tid \<and> t_user_id t = uid) \<and> 1 \<le> page \<and> 1 \<le> pp"
    then have "todo_first d tid uid \<noteq> None"
      by (auto simp: todo_first_def find_None_iff)
    then obtain t where "todo_first d tid uid = Some t" by blast
    then show "\<exists>r. get_items_for_todo d tid uid page pp = (Some r, None)
           \<and> l_per_page r = min pp 100
           \<and> l_items r = take (nat (min pp 100))
                            (drop (nat ((page - 1) * min pp 100))
                               (filter (\<lambda>i. i_todo_id i = tid) (items_tbl d)))
           \<and> length (l_items r) \<le> 100"
      by (simp add: get_items_for_todo_def paginate_def Let_def)
  qed
  have c: "1 \<le> page \<and> 1 \<le> pp \<longrightarrow>
        get_todos d uid page pp
          = take (nat pp)
              (drop (nat ((page - 1) * pp)) (filter (\<lambda>t. t_user_id t = uid) (todos_tbl d)))"
    by (simp add: get_todos_def paginate_def)
  from a b c show ?thesis by blast
qed

theorem listing_per_page_clamp_witness:
  "get_items_for_todo db_many 1 1 1 150 = get_items_for_todo db_many 1 1 1 100
   \<and> map_option l_per_page (fst (get_items_for_todo db_many 1 1 1 150)) = Some 100
   \<and> map_option (\<lambda>r. length (l_items r)) (fst (get_items_for_todo db_many 1 1 1 150)) = Some 100
   \<and> length (filter (\<lambda>i. i_todo_id i = 1) (items_tbl db_many)) = 150
   \<and> length (get_todos db_many 1 1 150) = 150"
proof -
  note t = listing_per_page_clamp [of 150 db_many 1 1 1]
  have ex: "\<exists>t \<in> set (todos_tbl db_many). t_id t = 1 \<and> t_user_id t = 1"
    by (simp add: db_many_def image_iff)
  have fi: "filter (\<lambda>i. i_todo_id i = 1) (items_tbl db_many) = items_tbl db_many"
    by (simp add: db_many_def)
  have ft: "filter (\<lambda>t. t_user_id t = 1) (todos_tbl db_many) = todos_tbl db_many"
    by (simp add: db_many_def)
  have li: "length (items_tbl db_many) = 150" and lt: "length (todos_tbl db_many) = 150"
    by (simp_all add: db_many_def)
  note ta = conjunct1 [OF t]
  note tb = conjunct1 [OF conjunct2 [OF t]]
  note tc = conjunct2 [OF conjunct2 [OF t]]
  from ta have c1: "get_items_for_todo db_many 1 1 1 150 = get_items_for_todo db_many 1 1 1 100"
    by simp
  from tb ex have "\<exists>r. get_items_for_todo db_many 1 1 1 150 = (Some r, None)
      \<and> l_per_page r = 100
      \<and> l_items r = take 100 (filter (\<lambda>i. i_todo_id i = 1) (items_tbl db_many))"
    by auto
  then obtain r where r: "get_items_for_todo db_many 1 1 1 150 = (Some r, None)"
    and pp: "l_per_page r = 100"
    and its: "l_items r = take 100 (filter (\<lambda>i. i_todo_id i = 1) (items_tbl db_many))"
    by blast
  from its have len: "length (l_items r) = 100"
    unfolding fi by (simp add: li)
  from tc have "get_todos db_many 1 1 150
      = take 150 (filter (\<lambda>t. t_user_id t = 1) (todos_tbl db_many))"
    by simp
  then have c5: "length (get_todos db_many 1 1 150) = 150"
    unfolding ft by (simp add: lt)
  have m1: "map_option l_per_page (fst (get_items_for_todo db_many 1 1 1 150)) = Some 100"
    unfolding r using pp by simp
  have m2: "map_option (\<lambda>r. length (l_items r)) (fst (get_items_for_todo db_many 1 1 1 150)) = Some 100"
    unfolding r using len by simp
  have n: "length (filter (\<lambda>i. i_todo_id i = 1) (items_tbl db_many)) = 150"
    unfolding fi by (rule li)
  from c1 m1 m2 n c5 show ?thesis by (intro conjI)
qed

text \<open>
  C9, as amended. With the action "update_status" and a status that is missing (None) or
  empty, a bulk Todo operation stores nothing; it returns "Missing status for bulk
  update" when at least one requested id is a Todo of the requesting user, and
  "No matching todos found" when none is.
\<close>

theorem bulk_todos_missing_status:
  assumes "status = PNone \<or> status = PStr ''''"
  shows
    "((\<exists>t \<in> set (todos_tbl d). t_id t \<in> set ids \<and> t_user_id t = uid) \<longrightarrow>
        bulk_update_todos cf d uid ids ''update_status'' status
          = ((False, Some ''Missing status for bulk update''), d))
   \<and> (\<not> (\<exists>t \<in> set (todos_tbl d). t_id t \<in> set ids \<and> t_user_id t = uid) \<longrightarrow>
        bulk_update_todos cf d uid ids ''update_status'' status
          = ((False, Some ''No matching todos found''), d))"
proof -
  from assms have falsy: "\<not> truthy status" by auto
  have sel: "(todos_in d ids uid = [])
      = (\<not> (\<exists>t \<in> set (todos_tbl d). t_id t \<in> set ids \<and> t_user_id t = uid))"
    by (auto simp: todos_in_def filter_empty_conv)
  show ?thesis
    using falsy sel by (simp add: bulk_update_todos_def except_rollback_def Let_def)
qed

theorem bulk_todos_missing_status_witness:
  "(PNone = PNone \<or> PNone = PStr '''')
   \<and> todo1 \<in> set (todos_tbl db0) \<and> t_id todo1 \<in> set [1, 3] \<and> t_user_id todo1 = 1
   \<and> bulk_update_todos None db0 1 [1, 3] ''update_status'' PNone
       = ((False, Some ''Missing status for bulk update''), db0)
   \<and> bulk_update_todos None db0 1 [1, 3] ''update_status'' (PStr '''')
       = ((False, Some ''Missing status for bulk update''), db0)
   \<and> bulk_update_todos None db0 1 [3] ''update_status'' PNone
       = ((False, Some ''No matching todos found''), db0)"
proof -
  have a: "todo1 \<in> set (todos_tbl db0)" "t_id todo1 \<in> set [1, 3]" "t_user_id todo1 = 1"
    by (simp_all add: db0_rows)
  then have ex: "\<exists>t \<in> set (todos_tbl db0). t_id t \<in> set [1, 3] \<and> t_user_id t = 1" by blast
  have nex: "\<not> (\<exists>t \<in> set (todos_tbl db0). t_id t \<in> set [3] \<and> t_user_id t = 1)"
    by (simp add: db0_rows)
  have p: "PNone = PNone \<or> PNone = PStr ''''" and q: "PStr '''' = PNone \<or> PStr '''' = PStr ''''"
    by simp_all
  from bulk_todos_missing_status [OF p, of db0 "[1, 3]" 1 None]
    bulk_todos_missing_status [OF q, of db0 "[1, 3]" 1 None]
    bulk_todos_missing_status [OF p, of db0 "[3]" 1 None]
    ex nex a p
  show ?thesis by blast
qed

text \<open>
  The claim as first stated fails where no requested id is a Todo of the requesting user:
  the not-found check comes first.
\<close>

theorem bulk_todos_missing_status_counterexample:
  "bulk_update_todos None db0 1 [3] ''update_status'' PNone
     = ((False, Some ''No matching todos found''), db0)
   \<and> fst (bulk_update_todos None db0 1 [3] ''update_status'' PNone)
     \<noteq> (False, Some ''Missing status for bulk update'')"
  by (simp add: bulk_update_todos_def except_rollback_def todos_in_def Let_def db0_rows)

text \<open>
  C10. On a store with unique primary keys, \<^verbatim>\<open>update_item_status\<close> for an item id
  that is unknown or not owned by the caller returns the not-found error whatever the new
  status is; the "Invalid status" error is only returned when the caller owns a stored
  item with that id.
\<close>

theorem ownership_before_status_validation:
  assumes "wf_db d"
  shows
    "(\<not> (\<exists>i \<in> set (items_tbl d). i_id i = iid \<and> item_owner d i = Some uid) \<longrightarrow>
        update_item_status cf d iid uid s
          = (Returned (None, Some ''Item not found or you don't have permission''), d))
   \<and> (fst (update_item_status cf d iid uid s)
          = Returned (None,
              Some ''Invalid status. Must be one of ['Pending', 'Partially Completed', 'Completed']'') \<longrightarrow>
        (\<exists>i \<in> set (items_tbl d). i_id i = iid \<and> item_owner d i = Some uid))"
proof -
  have none: "item_first d iid uid = None \<Longrightarrow>
      update_item_status cf d iid uid s = (Returned (None, Some item_not_found), d)"
    by (simp add: update_item_status_def)
  have differ: "''Invalid status. Must be one of ['Pending', 'Partially Completed', 'Completed']''
      \<noteq> item_not_found"
    by (simp add: item_not_found_def)
  have iff: "(item_first d iid uid = None)
      = (\<not> (\<exists>i \<in> set (items_tbl d). i_id i = iid \<and> item_owner d i = Some uid))"
    using assms by (auto simp: item_first_None_iff filter_empty_conv)
  have a: "\<not> (\<exists>i \<in> set (items_tbl d). i_id i = iid \<and> item_owner d i = Some uid) \<longrightarrow>
        update_item_status cf d iid uid s
          = (Returned (None, Some ''Item not found or you don't have permission''), d)"
  proof
    assume "\<not> (\<exists>i \<in> set (items_tbl d). i_id i = iid \<and> item_owner d i = Some uid)"
    with iff have "item_first d iid uid = None" by simp
    from none [OF this] show "update_item_status cf d iid uid s
          = (Returned (None, Some ''Item not found or you don't have permission''), d)"
      by (simp add: item_not_found_def)
  qed
  have b: "fst (update_item_status cf d iid uid s)
          = Returned (None,
              Some ''Invalid status. Must be one of ['Pending', 'Partially Completed', 'Completed']'') \<longrightarrow>
        (\<exists>i \<in> set (items_tbl d). i_id i = iid \<and> item_owner d i = Some uid)"
  proof
    assume r: "fst (update_item_status cf d iid uid s)
          = Returned (None,
              Some ''Invalid status. Must be one of ['Pending', 'Partially Completed', 'Completed']'')"
    have "item_first d iid uid \<noteq> None"
    proof
      assume "item_first d iid uid = None"
      from none [OF this] r differ show False by simp
    qed
    with iff show "\<exists>i \<in> set (items_tbl d). i_id i = iid \<and> item_owner d i = Some uid" by blast
  qed
  from a b show ?thesis by blast
qed

theorem ownership_before_status_validation_witness:
  "wf_db db0
   \<and> update_item_status None db0 3 1 ''Bogus''
       = (Returned (None, Some ''Item not found or you don't have permission''), db0)
   \<and> update_item_status None db0 3 1 ''Completed''
       = (Returned (None, Some ''Item not found or you don't have permission''), db0)
   \<and> update_item_status None db0 99 1 ''Bogus''
       = (Returned (None, Some ''Item not found or you don't have permission''), db0)
   \<and> fst (update_item_status None db0 3 2 ''Bogus'')
       = Returned (None,
           Some ''Invalid status. Must be one of ['Pending', 'Partially Completed', 'Completed']'')
   \<and> item3 \<in> set (items_tbl db0) \<and> i_id item3 = 3 \<and> item_owner db0 item3 = Some 2"
proof -
  have n3: "\<not> (\<exists>i \<in> set (items_tbl db0). i_id i = 3 \<and> item_owner db0 i = Some 1)"
    by (simp add: item_owner_def db0_rows)
  have n99: "\<not> (\<exists>i \<in> set (items_tbl db0). i_id i = 99 \<and> item_owner db0 i = Some 1)"
    by (simp add: item_owner_def db0_rows)
  have own: "fst (update_item_status None db0 3 2 ''Bogus'')
       = Returned (None,
           Some ''Invalid status. Must be one of ['Pending', 'Partially Completed', 'Completed']'')"
    by (simp add: update_item_status_def lookups db0_rows VALID_STATUSES_def invalid_status_text)
  have it: "item3 \<in> set (items_tbl db0) \<and> i_id item3 = 3 \<and> item_owner db0 item3 = Some 2"
    by (simp add: item_owner_def db0_rows)
  from ownership_before_status_validation [OF wf_db0, of 3 1 None "''Bogus''"]
    ownership_before_status_validation [OF wf_db0, of 3 1 None "''Completed''"]
    ownership_before_status_validation [OF wf_db0, of 99 1 None "''Bogus''"]
    n3 n99 own it wf_db0
  show ?thesis by blast
qed

end
